theory Spec2Isabelle
  imports Main
begin

section \<open>Values\<close>

text \<open>
  A value of the TypeScript type \<^verbatim>\<open>`0x${string}`\<close> (addresses, hashes, byte strings) is
  kept as the characters that follow the \<^verbatim>\<open>0x\<close> prefix, so such a value is never the empty
  JavaScript string and is always truthy. \<open>Hex ''''\<close> is the empty byte string \<^verbatim>\<open>"0x"\<close>.
\<close>

datatype hex = Hex string

definition hexString :: "hex \<Rightarrow> string" where
  "hexString h = (case h of Hex s \<Rightarrow> ''0x'' @ s)"

text \<open>
  \<^verbatim>\<open>bigint\<close> values are unbounded integers. The division of \<^verbatim>\<open>bigint\<close> truncates toward
  zero, where \<open>div\<close> of HOL rounds down.
\<close>

definition bigint_div :: "int \<Rightarrow> int \<Rightarrow> int" where
  "bigint_div a b = sgn a * sgn b * (\<bar>a\<bar> div \<bar>b\<bar>)"

text \<open>
  JavaScript truthiness of an optional numeric value, as \<^verbatim>\<open>!x\<close> reads it: \<^verbatim>\<open>undefined\<close>,
  \<^verbatim>\<open>null\<close> and zero are falsy.
\<close>

definition falsy :: "int option \<Rightarrow> bool" where
  "falsy v = (case v of None \<Rightarrow> True | Some n \<Rightarrow> n = 0)"

subsection \<open>Hex encoding of numbers\<close>

definition hexDigit :: "nat \<Rightarrow> char" where
  "hexDigit n = ''0123456789abcdef'' ! (n mod 16)"

function hexDigits :: "nat \<Rightarrow> string" where
  "hexDigits n = (if n < 16 then [hexDigit n] else hexDigits (n div 16) @ [hexDigit n])"
  by pat_completeness auto
termination
  by (relation "measure (\<lambda>n. n)") auto

declare hexDigits.simps [simp del]

text \<open>
  Modelled from the spec: the encoder of numeric fields (\<^verbatim>\<open>toHex\<close> under \<^verbatim>\<open>deepHexlify\<close>,
  in utils.js) is not among the sources. A number is written in its canonical hex form,
  without leading zeros; the fields are unsigned, and a negative number keeps its sign.
\<close>

definition toHex :: "int \<Rightarrow> hex" where
  "toHex i = Hex (if i < 0 then CHR ''-'' # hexDigits (nat (- i)) else hexDigits (nat i))"

definition digitVal :: "char \<Rightarrow> nat option" where
  "digitVal c = map_of (zip ''0123456789abcdefABCDEF''
     [0, 1, 2, 3, 4, 5, 6, 7, 8, 9, 10, 11, 12, 13, 14, 15, 10, 11, 12, 13, 14, 15]) c"

fun hexVal :: "nat \<Rightarrow> string \<Rightarrow> nat option" where
  "hexVal acc [] = Some acc"
| "hexVal acc (c # cs) =
     (case digitVal c of None \<Rightarrow> None | Some d \<Rightarrow> hexVal (acc * 16 + d) cs)"

section \<open>The user operation\<close>

text \<open>
  \<^verbatim>\<open>UserOperationStruct\<close>: every field may still be unset. The numeric fields have the
  type \<open>'n\<close>: \<open>int\<close> in the draft that the middleware fills (\<^verbatim>\<open>bigint\<close>), \<open>hex\<close> in the
  encoded request.
\<close>

record 'n UserOperation =
  sender :: "hex option"
  nonce :: "'n option"
  initCode :: "hex option"
  callData :: "hex option"
  callGasLimit :: "'n option"
  verificationGasLimit :: "'n option"
  preVerificationGas :: "'n option"
  maxFeePerGas :: "'n option"
  maxPriorityFeePerGas :: "'n option"
  paymasterAndData :: "hex option"
  signature :: "hex option"

type_synonym UserOperationStruct = "int UserOperation"
type_synonym UserOperationRequest = "hex UserOperation"

text \<open>\<^verbatim>\<open>RpcTransactionRequest\<close>: the fields that \<^verbatim>\<open>sendTransaction\<close> reads.\<close>

record RpcTransactionRequest =
  tx_to :: "hex option"
  tx_data :: "hex option"
  tx_value :: "hex option"

text \<open>What the untyped \<^verbatim>\<open>params\<close> of an RPC call can hold.\<close>

datatype jsval = JUndefined | JString string | JTx RpcTransactionRequest

text \<open>
  The errors. The source throws \<^verbatim>\<open>Error\<close> objects told apart by their messages:
  \<^item> \<open>AccountNotConnectedError\<close>: "account not connected!"
  \<^item> \<open>InvalidRecipientError\<close>: "transaction is missing to address"
  \<^item> \<open>UnsupportedSignerMismatchError\<close>: "cannot sign for address that is not the current account"
  \<^item> \<open>InvalidFeeDataError\<close>: "feeData is missing maxFeePerGas or maxPriorityFeePerGas"
  \<^item> \<open>IncompleteRequestError\<close>: "Request is missing parameters. ...", with the request
  \<^item> \<open>ConfirmationTimeoutError\<close>: "Failed to find transaction for User Operation"
  \<^item> \<open>TypeError\<close>: destructuring \<^verbatim>\<open>undefined\<close>, or reading a property of it
  \<^item> \<open>SyntaxError\<close>: \<^verbatim>\<open>BigInt\<close> of a string that is no number
  \<^item> \<open>BundlerError\<close>: a rejection that comes from the bundler client
\<close>

datatype error =
    AccountNotConnectedError
  | InvalidRecipientError
  | UnsupportedSignerMismatchError
  | InvalidFeeDataError
  | IncompleteRequestError UserOperationRequest
  | ConfirmationTimeoutError
  | TypeError
  | SyntaxError
  | BundlerError string

text \<open>
  \<^verbatim>\<open>fromHex(x, "bigint")\<close> of viem is \<^verbatim>\<open>BigInt(x)\<close>. \<^verbatim>\<open>BigInt\<close> of a string first trims its
  white space (here: tab, line feed, vertical tab, form feed, carriage return and space at
  the end; the string begins with the prefix) and then reads the digits after the
  prefix in base 16; no digit at all, or a character that is no hex digit, is a
  \<^verbatim>\<open>SyntaxError\<close>.
\<close>

definition isWhiteSpace :: "char \<Rightarrow> bool" where
  "isWhiteSpace c = (c \<in> set [CHR 0x09, CHR 0x0A, CHR 0x0B, CHR 0x0C, CHR 0x0D, CHR 0x20])"

definition trimEnd :: "string \<Rightarrow> string" where
  "trimEnd s = rev (dropWhile isWhiteSpace (rev s))"

definition fromHex :: "hex \<Rightarrow> error + int" where
  "fromHex h =
     (case h of Hex s \<Rightarrow>
        (if trimEnd s = [] then Inl SyntaxError
         else (case hexVal 0 (trimEnd s) of
                 None \<Rightarrow> Inl SyntaxError | Some n \<Rightarrow> Inr (int n))))"

section \<open>Effects\<close>

text \<open>
  Every call on a collaborator and every wait is an event. An operation returns its
  result (an error or a value) and the events it caused, in the order they happened.
\<close>

datatype event =
    SetTimeout nat
  | AccountGetInitCode
  | AccountGetAddress
  | AccountGetNonce
  | AccountEncodeExecute hex int hex
  | AccountGetDummySignature
  | AccountSignMessage jsval
  | EstimateUserOperationGas UserOperationRequest hex
  | GetMaxPriorityFeePerGas
  | GetFeeData
  | SendUserOperation UserOperationRequest hex
  | GetUserOperationReceipt hex
  | GetTransaction hex
  | RpcRequest string "jsval list option"

type_synonym 'a promise = "(error + 'a) \<times> event list"

definition resolve :: "'a \<Rightarrow> 'a promise" where
  "resolve x = (Inr x, [])"

definition throw :: "error \<Rightarrow> 'a promise" where
  "throw e = (Inl e, [])"

text \<open>\<open>await m f\<close>: run \<open>m\<close>; an error ends the computation, a value is passed to \<open>f\<close>.\<close>

definition await :: "'a promise \<Rightarrow> ('a \<Rightarrow> 'b promise) \<Rightarrow> 'b promise" where
  "await m f =
     (case m of
        (Inl e, tr) \<Rightarrow> (Inl e, tr)
      | (Inr x, tr) \<Rightarrow> (case f x of (r, tr') \<Rightarrow> (r, tr @ tr')))"

text \<open>
  The answer of a collaborator to a call: a value, or a rejection with its message. A call
  is the event and the answer; a rejection reaches the caller as a \<open>BundlerError\<close>.
\<close>

type_synonym 'a answer = "string + 'a"

definition call :: "event \<Rightarrow> 'a answer \<Rightarrow> 'a promise" where
  "call ev answer =
     (case answer of Inl msg \<Rightarrow> (Inl (BundlerError msg), [ev]) | Inr x \<Rightarrow> (Inr x, [ev]))"

text \<open>\<^verbatim>\<open>.catch(() => null)\<close>: a rejection becomes \<^verbatim>\<open>null\<close>.\<close>

definition catch_null :: "'a option promise \<Rightarrow> 'a option promise" where
  "catch_null m = (case m of (Inl e, tr) \<Rightarrow> (Inr None, tr) | (Inr x, tr) \<Rightarrow> (Inr x, tr))"

section \<open>The collaborators\<close>

text \<open>
  \<^verbatim>\<open>BaseSmartContractAccount\<close>, as the provider uses it. The account's answers are values:
  the draft holds most of them as pending promises, and the helper that awaits them
  (\<^verbatim>\<open>resolveProperties\<close>) is not among the sources.
\<close>

record account =
  acc_getAddress :: hex
  acc_getNonce :: int
  acc_getInitCode :: hex
  acc_encodeExecute :: "hex \<Rightarrow> int \<Rightarrow> hex \<Rightarrow> hex"
  acc_getDummySignature :: hex
  acc_signMessage :: "jsval \<Rightarrow> hex"

record UserOperationEstimateGasResponse =
  est_preVerificationGas :: int
  est_verificationGasLimit :: int
  est_callGasLimit :: int

text \<open>The answer of \<^verbatim>\<open>getFeeData\<close>: each of the two values is a number, or absent.\<close>

record FeeData =
  fd_maxFeePerGas :: "int option"
  fd_maxPriorityFeePerGas :: "int option"

text \<open>Of a receipt only \<^verbatim>\<open>receipt.receipt.transactionHash\<close> is read, of a transaction only \<^verbatim>\<open>hash\<close>.\<close>

record UserOperationReceipt =
  receipt_transactionHash :: hex

record Transaction =
  tx_hash :: hex

text \<open>
  \<^verbatim>\<open>PublicErc4337Client\<close>. Every call may be rejected. The answer to a receipt lookup
  depends on when it is asked: \<open>getUserOperationReceipt c i h\<close> is the answer to the
  lookup number \<open>i\<close> (from 0) of a poll for \<open>h\<close>.
\<close>

record PublicErc4337Client =
  estimateUserOperationGas :: "UserOperationRequest \<Rightarrow> hex \<Rightarrow> UserOperationEstimateGasResponse answer"
  getMaxPriorityFeePerGas :: "int answer"
  getFeeData :: "FeeData answer"
  rpc_sendUserOperation :: "UserOperationRequest \<Rightarrow> hex \<Rightarrow> hex answer"
  getUserOperationReceipt :: "nat \<Rightarrow> hex \<Rightarrow> UserOperationReceipt option answer"
  getTransaction :: "hex \<Rightarrow> Transaction answer"
  rpc_request :: "string \<Rightarrow> jsval list option \<Rightarrow> jsval answer"

section \<open>The provider\<close>

type_synonym AccountMiddlewareFn = "UserOperationStruct \<Rightarrow> UserOperationStruct promise"

definition noOpMiddleware :: AccountMiddlewareFn where
  "noOpMiddleware struct = resolve struct"

record SmartAccountProviderOpts =
  opt_txMaxRetries :: "nat option"
  opt_txRetryIntervalMs :: "nat option"
  opt_minPriorityFeePerBid :: "int option"

text \<open>
  The fields of the class. The retry limit and the interval are counts, kept as natural
  numbers. The four middleware stages are properties that hold functions, and
  \<^verbatim>\<open>withPaymasterMiddleware\<close>, \<^verbatim>\<open>withGasEstimator\<close> and \<^verbatim>\<open>withFeeDataGetter\<close> replace them.
  The protocol hash \<^verbatim>\<open>getUserOperationHash\<close> (utils.js) is not among the sources: it is a
  parameter, kept with the provider.
\<close>

record SmartAccountProvider =
  txMaxRetries :: nat
  txRetryIntervalMs :: nat
  minPriorityFeePerBid :: int
  rpcClient :: PublicErc4337Client
  entryPointAddress :: hex
  chain_id :: int
  account :: "account option"
  dummyPaymasterDataMiddleware :: AccountMiddlewareFn
  paymasterMiddleware :: AccountMiddlewareFn
  gasEstimator :: AccountMiddlewareFn
  feeDataGetter :: AccountMiddlewareFn
  getUserOperationHash :: "UserOperationRequest \<Rightarrow> hex \<Rightarrow> int \<Rightarrow> hex"

record SendUserOperationResult =
  res_hash :: hex
  res_request :: UserOperationRequest

subsection \<open>Helpers that are not among the sources\<close>

text \<open>
  Modelled from the spec: \<^verbatim>\<open>resolveProperties\<close> (utils.js) awaits the fields that are still
  pending. The fields of the model are resolved values, so nothing is left to await.
\<close>

definition resolveProperties :: "UserOperationStruct \<Rightarrow> UserOperationStruct" where
  "resolveProperties struct = struct"

text \<open>
  Modelled from the spec: \<^verbatim>\<open>deepHexlify\<close> (utils.js) encodes every numeric field to its
  canonical hex form; a byte field is a hex string already, and an unset field stays unset.
\<close>

definition deepHexlify :: "UserOperationStruct \<Rightarrow> UserOperationRequest" where
  "deepHexlify uo =
     \<lparr> sender = sender uo,
       nonce = map_option toHex (nonce uo),
       initCode = initCode uo,
       callData = callData uo,
       callGasLimit = map_option toHex (callGasLimit uo),
       verificationGasLimit = map_option toHex (verificationGasLimit uo),
       preVerificationGas = map_option toHex (preVerificationGas uo),
       maxFeePerGas = map_option toHex (maxFeePerGas uo),
       maxPriorityFeePerGas = map_option toHex (maxPriorityFeePerGas uo),
       paymasterAndData = paymasterAndData uo,
       signature = signature uo \<rparr>"

text \<open>
  Modelled from the spec: \<^verbatim>\<open>isValidRequest\<close> (types.js) accepts a request when no field
  is undefined or unset.
\<close>

definition isValidRequest :: "'n UserOperation \<Rightarrow> bool" where
  "isValidRequest r =
     (sender r \<noteq> None \<and> nonce r \<noteq> None \<and> initCode r \<noteq> None \<and> callData r \<noteq> None
      \<and> callGasLimit r \<noteq> None \<and> verificationGasLimit r \<noteq> None
      \<and> preVerificationGas r \<noteq> None \<and> maxFeePerGas r \<noteq> None
      \<and> maxPriorityFeePerGas r \<noteq> None \<and> paymasterAndData r \<noteq> None
      \<and> signature r \<noteq> None)"

text \<open>
  Modelled from the spec: \<^verbatim>\<open>asyncPipe\<close> (utils.js) applies the stages strictly in the order
  given, each one to the draft that the stage before it returned.
\<close>

fun asyncPipe :: "AccountMiddlewareFn list \<Rightarrow> AccountMiddlewareFn" where
  "asyncPipe [] struct = resolve struct"
| "asyncPipe (f # fs) struct = await (f struct) (asyncPipe fs)"

subsection \<open>The default middleware\<close>

text \<open>
  A stage assigns to fields of the draft it is given and returns that same draft. The
  defaults read \<^verbatim>\<open>this.rpcClient\<close>, \<^verbatim>\<open>this.entryPointAddress\<close> and
  \<^verbatim>\<open>this.minPriorityFeePerBid\<close>, which are set by the constructor and never assigned again.
\<close>

definition default_dummyPaymasterDataMiddleware :: AccountMiddlewareFn where
  "default_dummyPaymasterDataMiddleware struct =
     resolve (struct\<lparr>paymasterAndData := Some (Hex [])\<rparr>)"

definition default_paymasterMiddleware :: AccountMiddlewareFn where
  "default_paymasterMiddleware struct =
     resolve (struct\<lparr>paymasterAndData := Some (Hex [])\<rparr>)"

definition default_gasEstimator :: "PublicErc4337Client \<Rightarrow> hex \<Rightarrow> AccountMiddlewareFn" where
  "default_gasEstimator rpc entryPoint struct =
     (let req = deepHexlify (resolveProperties struct) in
      await (call (EstimateUserOperationGas req entryPoint)
               (estimateUserOperationGas rpc req entryPoint))
        (\<lambda>estimates.
           resolve (struct\<lparr>callGasLimit := Some (est_callGasLimit estimates),
                            verificationGasLimit := Some (est_verificationGasLimit estimates),
                            preVerificationGas := Some (est_preVerificationGas estimates)\<rparr>)))"

text \<open>
  The fee-data stage. Its guard is \<^verbatim>\<open>!feeData.maxFeePerGas || !feeData.maxPriorityFeePerGas\<close>,
  a test of truthiness. Past the guard both values are numbers, so the last case of the
  case distinction below is never taken.
\<close>

definition default_feeDataGetter :: "PublicErc4337Client \<Rightarrow> int \<Rightarrow> AccountMiddlewareFn" where
  "default_feeDataGetter rpc minBid struct =
     await (call GetMaxPriorityFeePerGas (getMaxPriorityFeePerGas rpc))
       (\<lambda>suggested.
     await (call GetFeeData (getFeeData rpc))
       (\<lambda>feeData.
          if falsy (fd_maxFeePerGas feeData) \<or> falsy (fd_maxPriorityFeePerGas feeData)
          then throw InvalidFeeDataError
          else
            (case (fd_maxFeePerGas feeData, fd_maxPriorityFeePerGas feeData) of
               (Some feeCap, Some feeTip) \<Rightarrow>
                 (let computed = bigint_div (suggested * 4) 3;
                      maxPriorityFeePerGasBid =
                        (if computed < minBid then minBid else computed);
                      maxFeePerGasBid = feeCap - feeTip + maxPriorityFeePerGasBid
                  in resolve (struct\<lparr>maxFeePerGas := Some maxFeePerGasBid,
                                       maxPriorityFeePerGas := Some maxPriorityFeePerGasBid\<rparr>))
             | _ \<Rightarrow> throw InvalidFeeDataError)))"

subsection \<open>Construction and configuration\<close>

text \<open>
  The constructor, given a client (a URL is made into one by code that is not among the
  sources). A missing option takes its default with \<^verbatim>\<open>??\<close>.
\<close>

definition new_SmartAccountProvider ::
  "PublicErc4337Client \<Rightarrow> hex \<Rightarrow> int \<Rightarrow> account option \<Rightarrow> SmartAccountProviderOpts option
     \<Rightarrow> (UserOperationRequest \<Rightarrow> hex \<Rightarrow> int \<Rightarrow> hex) \<Rightarrow> SmartAccountProvider" where
  "new_SmartAccountProvider rpcProvider entryPoint chain acc opts hashFn =
     (let retries = (case Option.bind opts opt_txMaxRetries of None \<Rightarrow> 5 | Some n \<Rightarrow> n);
          interval = (case Option.bind opts opt_txRetryIntervalMs of None \<Rightarrow> 2000 | Some n \<Rightarrow> n);
          minBid = (case Option.bind opts opt_minPriorityFeePerBid of
                      None \<Rightarrow> 1000000000 | Some n \<Rightarrow> n)
      in \<lparr> txMaxRetries = retries,
           txRetryIntervalMs = interval,
           minPriorityFeePerBid = minBid,
           rpcClient = rpcProvider,
           entryPointAddress = entryPoint,
           chain_id = chain,
           account = acc,
           dummyPaymasterDataMiddleware = default_dummyPaymasterDataMiddleware,
           paymasterMiddleware = default_paymasterMiddleware,
           gasEstimator = default_gasEstimator rpcProvider entryPoint,
           feeDataGetter = default_feeDataGetter rpcProvider minBid,
           getUserOperationHash = hashFn \<rparr>)"

definition withPaymasterMiddleware ::
  "SmartAccountProvider \<Rightarrow> AccountMiddlewareFn option \<Rightarrow> AccountMiddlewareFn option
     \<Rightarrow> SmartAccountProvider" where
  "withPaymasterMiddleware p dummyOverride paymasterOverride =
     p\<lparr>dummyPaymasterDataMiddleware :=
          (case dummyOverride of None \<Rightarrow> dummyPaymasterDataMiddleware p | Some f \<Rightarrow> f),
       paymasterMiddleware :=
          (case paymasterOverride of None \<Rightarrow> paymasterMiddleware p | Some f \<Rightarrow> f)\<rparr>"

definition withGasEstimator :: "SmartAccountProvider \<Rightarrow> AccountMiddlewareFn \<Rightarrow> SmartAccountProvider" where
  "withGasEstimator p override = p\<lparr>gasEstimator := override\<rparr>"

definition withFeeDataGetter :: "SmartAccountProvider \<Rightarrow> AccountMiddlewareFn \<Rightarrow> SmartAccountProvider" where
  "withFeeDataGetter p override = p\<lparr>feeDataGetter := override\<rparr>"

definition connect ::
  "SmartAccountProvider \<Rightarrow> (PublicErc4337Client \<Rightarrow> account) \<Rightarrow> SmartAccountProvider" where
  "connect p fn = p\<lparr>account := Some (fn (rpcClient p))\<rparr>"

subsection \<open>The operations\<close>

definition getAddress :: "SmartAccountProvider \<Rightarrow> hex promise" where
  "getAddress p =
     (case account p of
        None \<Rightarrow> throw AccountNotConnectedError
      | Some a \<Rightarrow> call AccountGetAddress (Inr (acc_getAddress a)))"

text \<open>
  The loop of \<^verbatim>\<open>waitForUserOperationTransaction\<close> from the iteration \<open>i\<close> on: wait, look
  the receipt up (a rejected lookup counts as no receipt), and either resolve the
  transaction or go on with \<open>i + 1\<close>.
\<close>

function waitFrom :: "SmartAccountProvider \<Rightarrow> hex \<Rightarrow> nat \<Rightarrow> hex promise" where
  "waitFrom p h i =
     (if i < txMaxRetries p then
        await (call (SetTimeout (txRetryIntervalMs p)) (Inr ()))
          (\<lambda>_.
        await (catch_null (call (GetUserOperationReceipt h)
                             (getUserOperationReceipt (rpcClient p) i h)))
          (\<lambda>receipt.
             (case receipt of
                Some r \<Rightarrow>
                  await (call (GetTransaction (receipt_transactionHash r))
                           (getTransaction (rpcClient p) (receipt_transactionHash r)))
                    (\<lambda>x. resolve (tx_hash x))
              | None \<Rightarrow> waitFrom p h (Suc i))))
      else throw ConfirmationTimeoutError)"
  by pat_completeness auto
termination
  by (relation "measure (\<lambda>(p, h, i). txMaxRetries p - i)") auto

declare waitFrom.simps [simp del]

definition waitForUserOperationTransaction :: "SmartAccountProvider \<Rightarrow> hex \<Rightarrow> hex promise" where
  "waitForUserOperationTransaction p h = waitFrom p h 0"

text \<open>
  The first part of \<^verbatim>\<open>sendUserOperation\<close>, once the account is known to be bound: the
  init code is awaited, then the object literal calls the account for the sender, the
  nonce, the call data and the dummy signature, in this order. The other fields are unset.
\<close>

definition assembleRequest ::
  "SmartAccountProvider \<Rightarrow> account \<Rightarrow> hex \<Rightarrow> hex \<Rightarrow> int option \<Rightarrow> UserOperationStruct promise" where
  "assembleRequest p a target data val =
     await (call AccountGetInitCode (Inr (acc_getInitCode a))) (\<lambda>init.
     await (getAddress p) (\<lambda>addr.
     await (call AccountGetNonce (Inr (acc_getNonce a))) (\<lambda>n.
     await (call (AccountEncodeExecute target (case val of None \<Rightarrow> 0 | Some v \<Rightarrow> v) data)
              (Inr (acc_encodeExecute a target (case val of None \<Rightarrow> 0 | Some v \<Rightarrow> v) data)))
       (\<lambda>cd.
     await (call AccountGetDummySignature (Inr (acc_getDummySignature a))) (\<lambda>dummy.
     resolve \<lparr> sender = Some addr, nonce = Some n, initCode = Some init,
               callData = Some cd, callGasLimit = None, verificationGasLimit = None,
               preVerificationGas = None, maxFeePerGas = None,
               maxPriorityFeePerGas = None, paymasterAndData = None,
               signature = Some dummy \<rparr>)))))"

text \<open>The four stages of the provider, in the order in which \<^verbatim>\<open>sendUserOperation\<close> pipes them.\<close>

definition middleware :: "SmartAccountProvider \<Rightarrow> AccountMiddlewareFn" where
  "middleware p =
     asyncPipe [dummyPaymasterDataMiddleware p, gasEstimator p,
                feeDataGetter p, paymasterMiddleware p]"

definition sendUserOperation ::
  "SmartAccountProvider \<Rightarrow> hex \<Rightarrow> hex \<Rightarrow> int option \<Rightarrow> SendUserOperationResult promise" where
  "sendUserOperation p target data val =
     (case account p of
        None \<Rightarrow> throw AccountNotConnectedError
      | Some a \<Rightarrow>
          await (assembleRequest p a target data val) (\<lambda>struct.
          await (middleware p struct) (\<lambda>uoStruct.
            (let req = deepHexlify (resolveProperties uoStruct) in
             if \<not> isValidRequest req then throw (IncompleteRequestError req)
             else
               await (call (AccountSignMessage (JString (hexString
                               (getUserOperationHash p req (entryPointAddress p) (chain_id p)))))
                        (Inr (acc_signMessage a (JString (hexString
                               (getUserOperationHash p req (entryPointAddress p) (chain_id p)))))))
                 (\<lambda>sig.
               await (call (SendUserOperation (req\<lparr>signature := Some sig\<rparr>) (entryPointAddress p))
                        (rpc_sendUserOperation (rpcClient p) (req\<lparr>signature := Some sig\<rparr>)
                           (entryPointAddress p)))
                 (\<lambda>h. resolve \<lparr> res_hash = h,
                                res_request = req\<lparr>signature := Some sig\<rparr> \<rparr>))))))"

definition sendTransaction :: "SmartAccountProvider \<Rightarrow> RpcTransactionRequest \<Rightarrow> hex promise" where
  "sendTransaction p req =
     (case tx_to req of
        None \<Rightarrow> throw InvalidRecipientError
      | Some target \<Rightarrow>
          await (case tx_value req of None \<Rightarrow> resolve 0 | Some v \<Rightarrow> (fromHex v, []))
            (\<lambda>val.
          await (sendUserOperation p target
                   (case tx_data req of None \<Rightarrow> Hex [] | Some d \<Rightarrow> d) (Some val))
            (\<lambda>res. waitForUserOperationTransaction p (res_hash res))))"

text \<open>Reading an array position: what lies beyond the end is \<^verbatim>\<open>undefined\<close>.\<close>

definition element :: "jsval list \<Rightarrow> nat \<Rightarrow> jsval" where
  "element xs i = (if i < length xs then xs ! i else JUndefined)"

definition request :: "SmartAccountProvider \<Rightarrow> string \<Rightarrow> jsval list option \<Rightarrow> jsval promise" where
  "request p method params =
     (if method = ''eth_sendTransaction'' then
        (case params of
           None \<Rightarrow> throw TypeError
         | Some ps \<Rightarrow>
             (case element ps 0 of
                JUndefined \<Rightarrow> throw TypeError
              | JString s \<Rightarrow> throw InvalidRecipientError
              | JTx tx \<Rightarrow> await (sendTransaction p tx) (\<lambda>h. resolve (JString (hexString h)))))
      else if method = ''eth_sign'' \<or> method = ''personal_sign'' then
        (case account p of
           None \<Rightarrow> throw AccountNotConnectedError
         | Some a \<Rightarrow>
             (case params of
                None \<Rightarrow> throw TypeError
              | Some ps \<Rightarrow>
                  await (getAddress p) (\<lambda>addr.
                    if element ps 1 \<noteq> JString (hexString addr)
                    then throw UnsupportedSignerMismatchError
                    else await (call (AccountSignMessage (element ps 0))
                                  (Inr (acc_signMessage a (element ps 0))))
                           (\<lambda>sig. resolve (JString (hexString sig))))))
      else call (RpcRequest method params) (rpc_request (rpcClient p) method params))"

section \<open>Observations on event sequences\<close>

text \<open>A lookup that yields no receipt: the receipt is not found, or the lookup is rejected.\<close>

definition noReceipt :: "UserOperationReceipt option answer \<Rightarrow> bool" where
  "noReceipt answer = (case answer of Inl e \<Rightarrow> True | Inr None \<Rightarrow> True | Inr (Some r) \<Rightarrow> False)"

definition isReceiptLookup :: "event \<Rightarrow> bool" where
  "isReceiptLookup ev = (case ev of GetUserOperationReceipt h \<Rightarrow> True | _ \<Rightarrow> False)"

text \<open>The number of receipt lookups among the events.\<close>

definition lookups :: "event list \<Rightarrow> nat" where
  "lookups evs = length (filter isReceiptLookup evs)"

definition isDelay :: "event \<Rightarrow> bool" where
  "isDelay ev = (case ev of SetTimeout ms \<Rightarrow> True | _ \<Rightarrow> False)"

text \<open>The number of waits among the events.\<close>

definition delays :: "event list \<Rightarrow> nat" where
  "delays evs = length (filter isDelay evs)"

text \<open>The time, in milliseconds, that the waits among the events take at least.\<close>

definition elapsed :: "event list \<Rightarrow> nat" where
  "elapsed evs = sum_list (map (\<lambda>ev. case ev of SetTimeout ms \<Rightarrow> ms | _ \<Rightarrow> 0) evs)"

text \<open>One iteration of the confirmation loop without a receipt: the wait, then the lookup.\<close>

definition pollRound :: "SmartAccountProvider \<Rightarrow> hex \<Rightarrow> event list" where
  "pollRound p h = [SetTimeout (txRetryIntervalMs p), GetUserOperationReceipt h]"

section \<open>A concrete provider\<close>

text \<open>
  A bundler client whose first receipt lookup finds nothing, whose second is rejected and
  whose third yields a receipt, and an account; the provider over them has the default
  options and the default middleware.
\<close>

definition example_client :: PublicErc4337Client where
  "example_client =
     \<lparr> estimateUserOperationGas =
         (\<lambda>r e. Inr \<lparr> est_preVerificationGas = 21000, est_verificationGasLimit = 100000,
                       est_callGasLimit = 50000 \<rparr>),
       getMaxPriorityFeePerGas = Inr 1000000000,
       getFeeData = Inr \<lparr> fd_maxFeePerGas = Some 5000000000,
                           fd_maxPriorityFeePerGas = Some 2000000000 \<rparr>,
       rpc_sendUserOperation = (\<lambda>r e. Inr (Hex ''aa'')),
       getUserOperationReceipt =
         (\<lambda>i h. if i = 0 then Inr None
                 else if i = 1 then Inl ''unavailable''
                 else Inr (Some \<lparr> receipt_transactionHash = Hex ''bb'' \<rparr>)),
       getTransaction = (\<lambda>h. Inr \<lparr> tx_hash = h \<rparr>),
       rpc_request = (\<lambda>m ps. Inr (JString ''0xaa36a7'')) \<rparr>"

definition example_account :: account where
  "example_account =
     \<lparr> acc_getAddress = Hex ''01'', acc_getNonce = 7, acc_getInitCode = Hex [],
       acc_encodeExecute = (\<lambda>t v d. d), acc_getDummySignature = Hex ''ff'',
       acc_signMessage = (\<lambda>m. Hex ''5167'') \<rparr>"

definition example_provider :: SmartAccountProvider where
  "example_provider =
     new_SmartAccountProvider example_client (Hex ''e0'') 11155111 (Some example_account) None
       (\<lambda>r e c. Hex ''cafe'')"

definition example_struct :: UserOperationStruct where
  "example_struct =
     \<lparr> sender = Some (Hex ''01''), nonce = Some 7, initCode = Some (Hex []),
       callData = Some (Hex ''1234''), callGasLimit = None, verificationGasLimit = None,
       preVerificationGas = None, maxFeePerGas = None, maxPriorityFeePerGas = None,
       paymasterAndData = None, signature = Some (Hex ''ff'') \<rparr>"

text \<open>The draft that the default middleware of the concrete provider makes of \<open>example_struct\<close>.\<close>

definition example_uoStruct :: UserOperationStruct where
  "example_uoStruct =
     example_struct\<lparr>paymasterAndData := Some (Hex []),
                    callGasLimit := Some 50000, verificationGasLimit := Some 100000,
                    preVerificationGas := Some 21000,
                    maxFeePerGas := Some 4333333333,
                    maxPriorityFeePerGas := Some 1333333333\<rparr>"

section \<open>Laws of the effect operations\<close>

lemma await_resolve [simp]: "await (resolve x) f = f x"
  by (simp add: await_def resolve_def split: prod.splits)

lemma await_throw [simp]: "await (throw e) f = throw e"
  by (simp add: await_def throw_def)

lemma await_call_Inr [simp]: "await (call ev (Inr x)) f = (fst (f x), ev # snd (f x))"
  by (simp add: await_def call_def split: prod.splits)

lemma await_call_Inl [simp]: "await (call ev (Inl msg)) f = (Inl (BundlerError msg), [ev])"
  by (simp add: await_def call_def)

lemma await_pair_Inr [simp]: "await (Inr x, tr) f = (fst (f x), tr @ snd (f x))"
  by (simp add: await_def split: prod.splits)

lemma await_pair_Inl [simp]: "await (Inl e, tr) f = (Inl e, tr)"
  by (simp add: await_def)

lemma await_assoc: "await (await m f) g = await m (\<lambda>x. await (f x) g)"
  by (auto simp: await_def split: prod.splits sum.splits)

section \<open>The concrete provider, evaluated\<close>

lemma new_provider_stages [simp]:
  "dummyPaymasterDataMiddleware (new_SmartAccountProvider rpc ep chain acc opts hashFn)
     = default_dummyPaymasterDataMiddleware"
  "paymasterMiddleware (new_SmartAccountProvider rpc ep chain acc opts hashFn)
     = default_paymasterMiddleware"
  "gasEstimator (new_SmartAccountProvider rpc ep chain acc opts hashFn)
     = default_gasEstimator rpc ep"
  "feeDataGetter (new_SmartAccountProvider rpc ep chain acc opts hashFn)
     = default_feeDataGetter rpc
         (minPriorityFeePerBid (new_SmartAccountProvider rpc ep chain acc opts hashFn))"
  by (simp_all add: new_SmartAccountProvider_def Let_def)

lemma new_provider_fields [simp]:
  "rpcClient (new_SmartAccountProvider rpc ep chain acc opts hashFn) = rpc"
  "entryPointAddress (new_SmartAccountProvider rpc ep chain acc opts hashFn) = ep"
  "chain_id (new_SmartAccountProvider rpc ep chain acc opts hashFn) = chain"
  "account (new_SmartAccountProvider rpc ep chain acc opts hashFn) = acc"
  "getUserOperationHash (new_SmartAccountProvider rpc ep chain acc opts hashFn) = hashFn"
  by (simp_all add: new_SmartAccountProvider_def Let_def)

lemma new_provider_defaults [simp]:
  "txMaxRetries (new_SmartAccountProvider rpc ep chain acc None hashFn) = 5"
  "txRetryIntervalMs (new_SmartAccountProvider rpc ep chain acc None hashFn) = 2000"
  "minPriorityFeePerBid (new_SmartAccountProvider rpc ep chain acc None hashFn) = 1000000000"
  by (simp_all add: new_SmartAccountProvider_def)

lemma example_provider_fields [simp]:
  "account example_provider = Some example_account"
  "rpcClient example_provider = example_client"
  "entryPointAddress example_provider = Hex ''e0''"
  "chain_id example_provider = 11155111"
  "getUserOperationHash example_provider = (\<lambda>r e c. Hex ''cafe'')"
  "txMaxRetries example_provider = 5"
  "txRetryIntervalMs example_provider = 2000"
  "minPriorityFeePerBid example_provider = 1000000000"
  by (simp_all add: example_provider_def)

lemma example_provider_stages [simp]:
  "dummyPaymasterDataMiddleware example_provider = default_dummyPaymasterDataMiddleware"
  "paymasterMiddleware example_provider = default_paymasterMiddleware"
  "gasEstimator example_provider = default_gasEstimator example_client (Hex ''e0'')"
  "feeDataGetter example_provider = default_feeDataGetter example_client 1000000000"
  by (simp_all add: example_provider_def)

lemma example_client_answers [simp]:
  "estimateUserOperationGas example_client r e =
     Inr \<lparr> est_preVerificationGas = 21000, est_verificationGasLimit = 100000,
           est_callGasLimit = 50000 \<rparr>"
  "getMaxPriorityFeePerGas example_client = Inr 1000000000"
  "getFeeData example_client =
     Inr \<lparr> fd_maxFeePerGas = Some 5000000000, fd_maxPriorityFeePerGas = Some 2000000000 \<rparr>"
  "rpc_sendUserOperation example_client r e = Inr (Hex ''aa'')"
  "rpc_request example_client m ps = Inr (JString ''0xaa36a7'')"
  by (simp_all add: example_client_def)

lemma example_lookups [simp]:
  "getUserOperationReceipt example_client i h =
     (if i = 0 then Inr None
      else if i = 1 then Inl ''unavailable''
      else Inr (Some \<lparr> receipt_transactionHash = Hex ''bb'' \<rparr>))"
  by (simp add: example_client_def)

lemma example_transaction [simp]: "getTransaction example_client h = Inr \<lparr> tx_hash = h \<rparr>"
  by (simp add: example_client_def)

lemma example_account_answers [simp]:
  "acc_getAddress example_account = Hex ''01''"
  "acc_getNonce example_account = 7"
  "acc_getInitCode example_account = Hex []"
  "acc_encodeExecute example_account t v d = d"
  "acc_getDummySignature example_account = Hex ''ff''"
  "acc_signMessage example_account m = Hex ''5167''"
  by (simp_all add: example_account_def)

section \<open>The fee-data stage\<close>

lemma bigint_div_nonneg: "0 \<le> a \<Longrightarrow> 0 < b \<Longrightarrow> bigint_div a b = a div b"
  by (cases "a = 0") (simp_all add: bigint_div_def)

lemma feeDataGetter_bids:
  assumes "getMaxPriorityFeePerGas rpc = Inr s"
    and "getFeeData rpc = Inr fd"
    and "fd_maxFeePerGas fd = Some feeCap" and "feeCap \<noteq> 0"
    and "fd_maxPriorityFeePerGas fd = Some feeTip" and "feeTip \<noteq> 0"
  shows "default_feeDataGetter rpc minBid struct =
           (Inr (struct\<lparr>maxFeePerGas := Some (feeCap - feeTip + max (bigint_div (s * 4) 3) minBid),
                         maxPriorityFeePerGas := Some (max (bigint_div (s * 4) 3) minBid)\<rparr>),
            [GetMaxPriorityFeePerGas, GetFeeData])"
  using assms by (simp add: default_feeDataGetter_def falsy_def resolve_def max_def Let_def)

lemma feeDataGetter_missing:
  assumes "getMaxPriorityFeePerGas rpc = Inr s"
    and "getFeeData rpc = Inr fd"
    and "falsy (fd_maxFeePerGas fd) \<or> falsy (fd_maxPriorityFeePerGas fd)"
  shows "default_feeDataGetter rpc minBid struct =
           (Inl InvalidFeeDataError, [GetMaxPriorityFeePerGas, GetFeeData])"
  using assms by (simp add: default_feeDataGetter_def throw_def)

lemma feeDataGetter_cases:
  "default_feeDataGetter rpc minBid struct = (r, tr) \<Longrightarrow>
     (\<exists>e. r = Inl e) \<or>
     (\<exists>s fd feeCap feeTip. getMaxPriorityFeePerGas rpc = Inr s \<and> getFeeData rpc = Inr fd
        \<and> fd_maxFeePerGas fd = Some feeCap \<and> feeCap \<noteq> 0
        \<and> fd_maxPriorityFeePerGas fd = Some feeTip \<and> feeTip \<noteq> 0)"
  apply (cases "getMaxPriorityFeePerGas rpc"; cases "getFeeData rpc")
  apply (auto simp: default_feeDataGetter_def falsy_def throw_def resolve_def split: if_splits option.splits)
  done

text \<open>
  The scenario of the specification: a suggested priority fee of 1000000000, a minimum
  bid of 1000000000 and fee data of 5000000000 and 2000000000 give the priority bid
  1333333333 and the fee cap 4333333333.
\<close>

lemma feeDataGetter_scenario:
  "default_feeDataGetter
     (rpc\<lparr>getMaxPriorityFeePerGas := Inr 1000000000,
           getFeeData := Inr \<lparr>fd_maxFeePerGas = Some 5000000000,
                                fd_maxPriorityFeePerGas = Some 2000000000\<rparr>\<rparr>)
     1000000000 struct =
   (Inr (struct\<lparr>maxFeePerGas := Some 4333333333, maxPriorityFeePerGas := Some 1333333333\<rparr>),
    [GetMaxPriorityFeePerGas, GetFeeData])"
  by (simp add: feeDataGetter_bids [where s = 1000000000 and feeCap = 5000000000
        and feeTip = 2000000000] bigint_div_def)

text \<open>
  Claim C1. For fee data in which both \<^verbatim>\<open>maxFeePerGas\<close> and \<^verbatim>\<open>maxPriorityFeePerGas\<close> are
  present, the fee-data stage is to write the two bids into the draft, and to fail with
  \<open>InvalidFeeDataError\<close> only when one of them is absent. The guard of the stage is
  \<^verbatim>\<open>!feeData.maxFeePerGas || !feeData.maxPriorityFeePerGas\<close>, and a zero is falsy: with the
  fee data of the scenario but a priority fee of zero, which is present, the stage
  fails with \<open>InvalidFeeDataError\<close> ("feeData is missing ...") and writes no bid.
\<close>

theorem feeDataGetter_rejects_present_zero:
  "default_feeDataGetter
     (rpc\<lparr>getMaxPriorityFeePerGas := Inr 1000000000,
           getFeeData := Inr \<lparr>fd_maxFeePerGas = Some 5000000000,
                                fd_maxPriorityFeePerGas = Some 0\<rparr>\<rparr>)
     1000000000 struct =
   (Inl InvalidFeeDataError, [GetMaxPriorityFeePerGas, GetFeeData])"
  by (simp add: default_feeDataGetter_def falsy_def throw_def)

section \<open>The confirmation poller\<close>

lemma waitFrom_exhausted:
  "\<not> i < txMaxRetries p \<Longrightarrow> waitFrom p h i = (Inl ConfirmationTimeoutError, [])"
  by (simp add: waitFrom.simps [of p h i] throw_def)

lemma waitFrom_no_receipt:
  assumes "i < txMaxRetries p" and "noReceipt (getUserOperationReceipt (rpcClient p) i h)"
  shows "waitFrom p h i =
           (fst (waitFrom p h (Suc i)), pollRound p h @ snd (waitFrom p h (Suc i)))"
  using assms
  by (simp add: waitFrom.simps [of p h i] noReceipt_def catch_null_def call_def await_def
        pollRound_def split: sum.splits option.splits prod.splits)

lemma waitFrom_receipt:
  assumes "i < txMaxRetries p" and "getUserOperationReceipt (rpcClient p) i h = Inr (Some r)"
  shows "waitFrom p h i =
           ((case getTransaction (rpcClient p) (receipt_transactionHash r) of
               Inl msg \<Rightarrow> Inl (BundlerError msg) | Inr x \<Rightarrow> Inr (tx_hash x)),
            pollRound p h @ [GetTransaction (receipt_transactionHash r)])"
  using assms
  by (simp add: waitFrom.simps [of p h i] catch_null_def call_def await_def resolve_def
        pollRound_def split: sum.splits option.splits prod.splits)

lemma waitFrom_found:
  assumes "k < txMaxRetries p"
    and "\<forall>j. i \<le> j \<and> j < k \<longrightarrow> noReceipt (getUserOperationReceipt (rpcClient p) j h)"
    and "getUserOperationReceipt (rpcClient p) k h = Inr (Some r)"
    and "i \<le> k"
  shows "waitFrom p h i =
           ((case getTransaction (rpcClient p) (receipt_transactionHash r) of
               Inl msg \<Rightarrow> Inl (BundlerError msg) | Inr x \<Rightarrow> Inr (tx_hash x)),
            concat (replicate (Suc k - i) (pollRound p h))
              @ [GetTransaction (receipt_transactionHash r)])"
  using assms(2,4)
proof (induction "k - i" arbitrary: i)
  case 0
  then have "i = k" by simp
  then show ?case using assms(1,3) by (simp add: waitFrom_receipt)
next
  case (Suc n)
  then have lt: "i < k" by simp
  with assms(1) have "i < txMaxRetries p" by simp
  moreover from Suc.prems lt have "noReceipt (getUserOperationReceipt (rpcClient p) i h)" by simp
  ultimately have step: "waitFrom p h i =
      (fst (waitFrom p h (Suc i)), pollRound p h @ snd (waitFrom p h (Suc i)))"
    by (rule waitFrom_no_receipt)
  have "n = k - Suc i" using Suc.hyps(2) by simp
  moreover have "\<forall>j. Suc i \<le> j \<and> j < k \<longrightarrow> noReceipt (getUserOperationReceipt (rpcClient p) j h)"
    using Suc.prems(1) by simp
  moreover have "Suc i \<le> k" using lt by simp
  ultimately have ih: "waitFrom p h (Suc i) =
           ((case getTransaction (rpcClient p) (receipt_transactionHash r) of
               Inl msg \<Rightarrow> Inl (BundlerError msg) | Inr x \<Rightarrow> Inr (tx_hash x)),
            concat (replicate (Suc k - Suc i) (pollRound p h))
              @ [GetTransaction (receipt_transactionHash r)])"
    by (rule Suc.hyps(1))
  have "Suc k - i = Suc (Suc k - Suc i)" using lt by simp
  then show ?case by (simp add: step ih)
qed

lemma waitFrom_never:
  assumes "\<forall>j. i \<le> j \<and> j < txMaxRetries p \<longrightarrow> noReceipt (getUserOperationReceipt (rpcClient p) j h)"
    and "i \<le> txMaxRetries p"
  shows "waitFrom p h i =
           (Inl ConfirmationTimeoutError, concat (replicate (txMaxRetries p - i) (pollRound p h)))"
  using assms
proof (induction "txMaxRetries p - i" arbitrary: i)
  case 0
  then show ?case by (simp add: waitFrom_exhausted)
next
  case (Suc n)
  then have lt: "i < txMaxRetries p" by simp
  moreover from Suc.prems lt have "noReceipt (getUserOperationReceipt (rpcClient p) i h)" by simp
  ultimately have step: "waitFrom p h i =
      (fst (waitFrom p h (Suc i)), pollRound p h @ snd (waitFrom p h (Suc i)))"
    by (rule waitFrom_no_receipt)
  have "n = txMaxRetries p - Suc i" using Suc.hyps(2) by simp
  moreover have "\<forall>j. Suc i \<le> j \<and> j < txMaxRetries p \<longrightarrow> noReceipt (getUserOperationReceipt (rpcClient p) j h)"
    using Suc.prems(1) by simp
  moreover have "Suc i \<le> txMaxRetries p" using lt by simp
  ultimately have ih: "waitFrom p h (Suc i) =
      (Inl ConfirmationTimeoutError, concat (replicate (txMaxRetries p - Suc i) (pollRound p h)))"
    by (rule Suc.hyps(1))
  have "txMaxRetries p - i = Suc (txMaxRetries p - Suc i)" using lt by simp
  then show ?case by (simp add: step ih)
qed

lemma lookups_append [simp]: "lookups (xs @ ys) = lookups xs + lookups ys"
  by (simp add: lookups_def)

lemma lookups_Nil [simp]: "lookups [] = 0"
  by (simp add: lookups_def)

lemma delays_Nil [simp]: "delays [] = 0"
  by (simp add: delays_def)

lemma elapsed_Nil [simp]: "elapsed [] = 0"
  by (simp add: elapsed_def)

lemma lookups_pollRound [simp]: "lookups (pollRound p h) = 1"
  by (simp add: lookups_def pollRound_def isReceiptLookup_def)

lemma lookups_GetTransaction [simp]: "lookups [GetTransaction x] = 0"
  by (simp add: lookups_def isReceiptLookup_def)

lemma lookups_rounds [simp]: "lookups (concat (replicate n (pollRound p h))) = n"
  by (induction n) simp_all

lemma delays_append [simp]: "delays (xs @ ys) = delays xs + delays ys"
  by (simp add: delays_def)

lemma delays_pollRound [simp]: "delays (pollRound p h) = 1"
  by (simp add: delays_def pollRound_def isDelay_def)

lemma delays_GetTransaction [simp]: "delays [GetTransaction x] = 0"
  by (simp add: delays_def isDelay_def)

lemma delays_rounds [simp]: "delays (concat (replicate n (pollRound p h))) = n"
  by (induction n) simp_all

lemma elapsed_append [simp]: "elapsed (xs @ ys) = elapsed xs + elapsed ys"
  by (simp add: elapsed_def)

lemma elapsed_pollRound [simp]: "elapsed (pollRound p h) = txRetryIntervalMs p"
  by (simp add: elapsed_def pollRound_def)

lemma elapsed_GetTransaction [simp]: "elapsed [GetTransaction x] = 0"
  by (simp add: elapsed_def)

lemma elapsed_rounds [simp]:
  "elapsed (concat (replicate n (pollRound p h))) = n * txRetryIntervalMs p"
  by (induction n) simp_all

text \<open>
  Claim C2. If the first \<open>k < txMaxRetries\<close> receipt lookups yield no receipt (not found,
  or the lookup is rejected, which is retried and not surfaced) and lookup \<open>k + 1\<close> yields a
  receipt, the poller makes exactly \<open>k + 1\<close> lookups and returns the hash of the
  transaction that the bundler client resolves from the receipt's transaction hash (a
  rejection of that last call is passed on). If no lookup within the limit yields a
  receipt, it makes exactly \<open>txMaxRetries\<close> lookups and fails with
  \<open>ConfirmationTimeoutError\<close>. The limit defaults to 5 and the interval to 2000 ms.
\<close>

theorem poller_attempts:
  "(k < txMaxRetries p
      \<and> (\<forall>j<k. noReceipt (getUserOperationReceipt (rpcClient p) j h))
      \<and> getUserOperationReceipt (rpcClient p) k h = Inr (Some r)
    \<longrightarrow> fst (waitForUserOperationTransaction p h) =
          (case getTransaction (rpcClient p) (receipt_transactionHash r) of
             Inl msg \<Rightarrow> Inl (BundlerError msg) | Inr x \<Rightarrow> Inr (tx_hash x))
        \<and> lookups (snd (waitForUserOperationTransaction p h)) = k + 1)
   \<and> ((\<forall>j<txMaxRetries p. noReceipt (getUserOperationReceipt (rpcClient p) j h))
    \<longrightarrow> fst (waitForUserOperationTransaction p h) = Inl ConfirmationTimeoutError
        \<and> lookups (snd (waitForUserOperationTransaction p h)) = txMaxRetries p)
   \<and> txMaxRetries (new_SmartAccountProvider rpc ep chain acc None hashFn) = 5
   \<and> txRetryIntervalMs (new_SmartAccountProvider rpc ep chain acc None hashFn) = 2000"
proof (intro conjI impI)
  assume a: "k < txMaxRetries p
      \<and> (\<forall>j<k. noReceipt (getUserOperationReceipt (rpcClient p) j h))
      \<and> getUserOperationReceipt (rpcClient p) k h = Inr (Some r)"
  then have found: "waitFrom p h 0 =
           ((case getTransaction (rpcClient p) (receipt_transactionHash r) of
               Inl msg \<Rightarrow> Inl (BundlerError msg) | Inr x \<Rightarrow> Inr (tx_hash x)),
            concat (replicate (Suc k - 0) (pollRound p h))
              @ [GetTransaction (receipt_transactionHash r)])"
    by (intro waitFrom_found) simp_all
  show "fst (waitForUserOperationTransaction p h) =
          (case getTransaction (rpcClient p) (receipt_transactionHash r) of
             Inl msg \<Rightarrow> Inl (BundlerError msg) | Inr x \<Rightarrow> Inr (tx_hash x))"
    by (simp add: waitForUserOperationTransaction_def found)
  show "lookups (snd (waitForUserOperationTransaction p h)) = k + 1"
    by (simp add: waitForUserOperationTransaction_def found)
next
  assume "\<forall>j<txMaxRetries p. noReceipt (getUserOperationReceipt (rpcClient p) j h)"
  then have never: "waitFrom p h 0 =
      (Inl ConfirmationTimeoutError, concat (replicate (txMaxRetries p - 0) (pollRound p h)))"
    by (intro waitFrom_never) simp_all
  show "fst (waitForUserOperationTransaction p h) = Inl ConfirmationTimeoutError"
    by (simp add: waitForUserOperationTransaction_def never)
  show "lookups (snd (waitForUserOperationTransaction p h)) = txMaxRetries p"
    by (simp add: waitForUserOperationTransaction_def never)
next
  show "txMaxRetries (new_SmartAccountProvider rpc ep chain acc None hashFn) = 5"
    by (simp add: new_SmartAccountProvider_def)
  show "txRetryIntervalMs (new_SmartAccountProvider rpc ep chain acc None hashFn) = 2000"
    by (simp add: new_SmartAccountProvider_def)
qed

theorem poller_attempts_witness:
  "fst (waitForUserOperationTransaction example_provider (Hex ''aa'')) = Inr (Hex ''bb'')
   \<and> lookups (snd (waitForUserOperationTransaction example_provider (Hex ''aa''))) = 3
   \<and> fst (waitForUserOperationTransaction (example_provider\<lparr>txMaxRetries := 2\<rparr>) (Hex ''aa''))
       = Inl ConfirmationTimeoutError
   \<and> lookups (snd (waitForUserOperationTransaction (example_provider\<lparr>txMaxRetries := 2\<rparr>)
                     (Hex ''aa''))) = 2"
  using poller_attempts [of 2 example_provider "Hex ''aa''" "\<lparr> receipt_transactionHash = Hex ''bb'' \<rparr>"]
    poller_attempts [of 0 "example_provider\<lparr>txMaxRetries := 2\<rparr>" "Hex ''aa''"]
  by (simp add: noReceipt_def)

section \<open>The fee bids and the frame of the default stages\<close>

text \<open>
  Whenever the fee-data stage returns a draft, the priority bid is the suggestion times
  4 divided by 3, raised to the minimum bid, and the fee cap exceeds the priority bid by the
  difference of the two queried values.
\<close>

lemma feeDataGetter_invariant:
  assumes "default_feeDataGetter rpc minBid struct = (Inr struct', tr)"
  shows "\<exists>s fd feeCap feeTip bid.
           getMaxPriorityFeePerGas rpc = Inr s \<and> getFeeData rpc = Inr fd
           \<and> fd_maxFeePerGas fd = Some feeCap \<and> fd_maxPriorityFeePerGas fd = Some feeTip
           \<and> bid = max (bigint_div (s * 4) 3) minBid
           \<and> maxPriorityFeePerGas struct' = Some bid
           \<and> maxFeePerGas struct' = Some (feeCap - feeTip + bid)
           \<and> struct' = struct\<lparr>maxFeePerGas := Some (feeCap - feeTip + bid),
                                maxPriorityFeePerGas := Some bid\<rparr>"
proof -
  from feeDataGetter_cases [OF assms] obtain s fd feeCap feeTip where
    h: "getMaxPriorityFeePerGas rpc = Inr s" "getFeeData rpc = Inr fd"
       "fd_maxFeePerGas fd = Some feeCap" "feeCap \<noteq> 0"
       "fd_maxPriorityFeePerGas fd = Some feeTip" "feeTip \<noteq> 0"
    by auto
  from feeDataGetter_bids [OF h, of minBid struct] assms
  have "struct' = struct\<lparr>maxFeePerGas := Some (feeCap - feeTip + max (bigint_div (s * 4) 3) minBid),
                         maxPriorityFeePerGas := Some (max (bigint_div (s * 4) 3) minBid)\<rparr>"
    by simp
  with h show ?thesis by simp
qed

text \<open>
  Claim C4. For every suggested priority fee and every fee data with both values present,
  the stage is to write a priority bid that is at least the maximum of the suggestion
  times 4/3 and the minimum bid, and a fee cap that keeps the difference of the queried
  values. Whenever the stage writes its bids they are so (\<open>feeDataGetter_invariant\<close>), but
  for fee data whose priority fee is present and zero it writes none, whatever the
  suggestion, the fee cap and the minimum bid are: the truthiness guard takes the zero for
  a missing value and the stage fails with \<open>InvalidFeeDataError\<close>.
\<close>

theorem feeDataGetter_no_bid_for_zero_priority_fee:
  "default_feeDataGetter
     (rpc\<lparr>getMaxPriorityFeePerGas := Inr s,
           getFeeData := Inr \<lparr>fd_maxFeePerGas = Some feeCap,
                                fd_maxPriorityFeePerGas = Some 0\<rparr>\<rparr>)
     minBid struct =
   (Inl InvalidFeeDataError, [GetMaxPriorityFeePerGas, GetFeeData])"
  by (simp add: default_feeDataGetter_def falsy_def throw_def)

lemma gasEstimator_result:
  "default_gasEstimator rpc ep struct =
     (case estimateUserOperationGas rpc (deepHexlify struct) ep of
        Inl msg \<Rightarrow> (Inl (BundlerError msg), [EstimateUserOperationGas (deepHexlify struct) ep])
      | Inr est \<Rightarrow>
          (Inr (struct\<lparr>callGasLimit := Some (est_callGasLimit est),
                        verificationGasLimit := Some (est_verificationGasLimit est),
                        preVerificationGas := Some (est_preVerificationGas est)\<rparr>),
           [EstimateUserOperationGas (deepHexlify struct) ep]))"
  by (simp add: default_gasEstimator_def resolveProperties_def resolve_def Let_def
        split: sum.splits)

text \<open>
  Claim C9. Each default stage of a provider changes only its own fields of the draft it
  is given: the dummy-paymaster stage and the paymaster stage set \<open>paymasterAndData\<close> to
  the empty byte string and nothing else, the gas estimator writes only \<open>callGasLimit\<close>,
  \<open>verificationGasLimit\<close> and \<open>preVerificationGas\<close>, and the fee-data stage writes only
  \<open>maxFeePerGas\<close> and \<open>maxPriorityFeePerGas\<close>.
\<close>

theorem default_stages_frame:
  assumes "p = new_SmartAccountProvider rpc ep chain acc opts hashFn"
  shows "dummyPaymasterDataMiddleware p struct
           = (Inr (struct\<lparr>paymasterAndData := Some (Hex [])\<rparr>), [])
         \<and> paymasterMiddleware p struct
           = (Inr (struct\<lparr>paymasterAndData := Some (Hex [])\<rparr>), [])
         \<and> (\<forall>struct' tr. gasEstimator p struct = (Inr struct', tr) \<longrightarrow>
               struct' = struct\<lparr>callGasLimit := callGasLimit struct',
                                 verificationGasLimit := verificationGasLimit struct',
                                 preVerificationGas := preVerificationGas struct'\<rparr>)
         \<and> (\<forall>struct' tr. feeDataGetter p struct = (Inr struct', tr) \<longrightarrow>
               struct' = struct\<lparr>maxFeePerGas := maxFeePerGas struct',
                                 maxPriorityFeePerGas := maxPriorityFeePerGas struct'\<rparr>)"
proof (intro conjI allI impI)
  show "dummyPaymasterDataMiddleware p struct
           = (Inr (struct\<lparr>paymasterAndData := Some (Hex [])\<rparr>), [])"
    by (simp add: assms default_dummyPaymasterDataMiddleware_def resolve_def)
  show "paymasterMiddleware p struct
           = (Inr (struct\<lparr>paymasterAndData := Some (Hex [])\<rparr>), [])"
    by (simp add: assms default_paymasterMiddleware_def resolve_def)
next
  fix struct' tr
  assume "gasEstimator p struct = (Inr struct', tr)"
  then have "default_gasEstimator rpc ep struct = (Inr struct', tr)"
    by (simp add: assms)
  then show "struct' = struct\<lparr>callGasLimit := callGasLimit struct',
                                 verificationGasLimit := verificationGasLimit struct',
                                 preVerificationGas := preVerificationGas struct'\<rparr>"
    by (auto simp: gasEstimator_result split: sum.splits)
next
  fix struct' tr
  assume "feeDataGetter p struct = (Inr struct', tr)"
  then have "default_feeDataGetter rpc (minPriorityFeePerBid p) struct = (Inr struct', tr)"
    by (simp add: assms)
  from feeDataGetter_invariant [OF this]
  show "struct' = struct\<lparr>maxFeePerGas := maxFeePerGas struct',
                                 maxPriorityFeePerGas := maxPriorityFeePerGas struct'\<rparr>"
    by auto
qed

lemma example_feeDataGetter [simp]:
  "default_feeDataGetter example_client 1000000000 struct =
     (Inr (struct\<lparr>maxFeePerGas := Some 4333333333, maxPriorityFeePerGas := Some 1333333333\<rparr>),
      [GetMaxPriorityFeePerGas, GetFeeData])"
  by (simp add: feeDataGetter_bids [where s = 1000000000 and feeCap = 5000000000
        and feeTip = 2000000000] bigint_div_def)

lemma example_gasEstimator [simp]:
  "default_gasEstimator example_client ep struct =
     (Inr (struct\<lparr>callGasLimit := Some 50000, verificationGasLimit := Some 100000,
                   preVerificationGas := Some 21000\<rparr>),
      [EstimateUserOperationGas (deepHexlify struct) ep])"
  by (simp add: gasEstimator_result)

theorem default_stages_frame_witness:
  "dummyPaymasterDataMiddleware example_provider example_struct
     = (Inr (example_struct\<lparr>paymasterAndData := Some (Hex [])\<rparr>), [])
   \<and> gasEstimator example_provider example_struct =
     (Inr (example_struct\<lparr>callGasLimit := Some 50000, verificationGasLimit := Some 100000,
                           preVerificationGas := Some 21000\<rparr>),
      [EstimateUserOperationGas (deepHexlify example_struct) (Hex ''e0'')])
   \<and> example_struct\<lparr>callGasLimit := Some 50000, verificationGasLimit := Some 100000,
                      preVerificationGas := Some 21000\<rparr>
       = example_struct\<lparr>callGasLimit := Some 50000, verificationGasLimit := Some 100000,
                      preVerificationGas := Some 21000,
                      callGasLimit := Some 50000, verificationGasLimit := Some 100000,
                      preVerificationGas := Some 21000\<rparr>
   \<and> feeDataGetter example_provider example_struct =
     (Inr (example_struct\<lparr>maxFeePerGas := Some 4333333333,
                           maxPriorityFeePerGas := Some 1333333333\<rparr>),
      [GetMaxPriorityFeePerGas, GetFeeData])
   \<and> sender (example_struct\<lparr>maxFeePerGas := Some 4333333333,
                              maxPriorityFeePerGas := Some 1333333333\<rparr>)
       = sender example_struct"
  using default_stages_frame [OF example_provider_def, of example_struct]
  by simp

lemma not_noReceipt: "\<not> noReceipt answer \<Longrightarrow> \<exists>r. answer = Inr (Some r)"
  by (simp add: noReceipt_def split: sum.splits option.splits)

lemma waitFrom_shape:
  "i \<le> txMaxRetries p \<Longrightarrow>
   \<exists>n. n \<le> txMaxRetries p - i \<and>
     (snd (waitFrom p h i) = concat (replicate n (pollRound p h))
      \<or> (\<exists>x. snd (waitFrom p h i) = concat (replicate n (pollRound p h)) @ [GetTransaction x]))"
proof (induction "txMaxRetries p - i" arbitrary: i)
  case 0
  then have "snd (waitFrom p h i) = concat (replicate 0 (pollRound p h))"
    by (simp add: waitFrom_exhausted)
  then show ?case by blast
next
  case (Suc n)
  then have lt: "i < txMaxRetries p" by simp
  show ?case
  proof (cases "noReceipt (getUserOperationReceipt (rpcClient p) i h)")
    case True
    have "n = txMaxRetries p - Suc i" using Suc.hyps(2) by simp
    moreover have "Suc i \<le> txMaxRetries p" using lt by simp
    ultimately obtain m where m: "m \<le> txMaxRetries p - Suc i"
      "snd (waitFrom p h (Suc i)) = concat (replicate m (pollRound p h))
       \<or> (\<exists>x. snd (waitFrom p h (Suc i)) = concat (replicate m (pollRound p h)) @ [GetTransaction x])"
      using Suc.hyps(1) by blast
    have "Suc m \<le> txMaxRetries p - i" using m(1) lt by simp
    moreover have "snd (waitFrom p h i) = concat (replicate (Suc m) (pollRound p h))
       \<or> (\<exists>x. snd (waitFrom p h i) = concat (replicate (Suc m) (pollRound p h)) @ [GetTransaction x])"
      using m(2) by (auto simp: waitFrom_no_receipt [OF lt True])
    ultimately show ?thesis by blast
  next
    case False
    then obtain r where "getUserOperationReceipt (rpcClient p) i h = Inr (Some r)"
      using not_noReceipt by blast
    from waitFrom_receipt [OF lt this]
    have "snd (waitFrom p h i) =
            concat (replicate (Suc 0) (pollRound p h)) @ [GetTransaction (receipt_transactionHash r)]"
      by simp
    moreover have "Suc 0 \<le> txMaxRetries p - i" using lt by simp
    ultimately show ?thesis by blast
  qed
qed

text \<open>
  Claim C10. In every iteration of the confirmation poller the wait of
  \<open>txRetryIntervalMs\<close> comes before the receipt lookup of that iteration. The events of a
  poll are always some number (at most \<open>txMaxRetries\<close>) of rounds, each a wait followed by
  a lookup, and then at most the one transaction lookup; a receipt found at lookup
  \<open>k + 1\<close> is resolved after \<open>k + 1\<close> waits (so after one full interval at the earliest, even
  when it is available at once), and a timeout comes after exactly \<open>txMaxRetries\<close> waits
  and \<open>txMaxRetries\<close> lookups.
\<close>

theorem poller_waits_before_each_lookup:
  "(k < txMaxRetries p
      \<and> (\<forall>j<k. noReceipt (getUserOperationReceipt (rpcClient p) j h))
      \<and> getUserOperationReceipt (rpcClient p) k h = Inr (Some r)
    \<longrightarrow> snd (waitForUserOperationTransaction p h) =
          concat (replicate (k + 1)
                    [SetTimeout (txRetryIntervalMs p), GetUserOperationReceipt h])
            @ [GetTransaction (receipt_transactionHash r)]
        \<and> elapsed (snd (waitForUserOperationTransaction p h)) = (k + 1) * txRetryIntervalMs p)
   \<and> ((\<forall>j<txMaxRetries p. noReceipt (getUserOperationReceipt (rpcClient p) j h))
    \<longrightarrow> waitForUserOperationTransaction p h =
          (Inl ConfirmationTimeoutError,
           concat (replicate (txMaxRetries p)
                     [SetTimeout (txRetryIntervalMs p), GetUserOperationReceipt h]))
        \<and> delays (snd (waitForUserOperationTransaction p h)) = txMaxRetries p
        \<and> lookups (snd (waitForUserOperationTransaction p h)) = txMaxRetries p)
   \<and> (\<exists>n. n \<le> txMaxRetries p \<and>
        (snd (waitForUserOperationTransaction p h) =
           concat (replicate n [SetTimeout (txRetryIntervalMs p), GetUserOperationReceipt h])
         \<or> (\<exists>x. snd (waitForUserOperationTransaction p h) =
           concat (replicate n [SetTimeout (txRetryIntervalMs p), GetUserOperationReceipt h])
             @ [GetTransaction x])))"
proof (intro conjI impI)
  assume a: "k < txMaxRetries p
      \<and> (\<forall>j<k. noReceipt (getUserOperationReceipt (rpcClient p) j h))
      \<and> getUserOperationReceipt (rpcClient p) k h = Inr (Some r)"
  then have found: "waitFrom p h 0 =
           ((case getTransaction (rpcClient p) (receipt_transactionHash r) of
               Inl msg \<Rightarrow> Inl (BundlerError msg) | Inr x \<Rightarrow> Inr (tx_hash x)),
            concat (replicate (Suc k - 0) (pollRound p h))
              @ [GetTransaction (receipt_transactionHash r)])"
    by (intro waitFrom_found) simp_all
  show "snd (waitForUserOperationTransaction p h) =
          concat (replicate (k + 1)
                    [SetTimeout (txRetryIntervalMs p), GetUserOperationReceipt h])
            @ [GetTransaction (receipt_transactionHash r)]"
    by (simp add: waitForUserOperationTransaction_def found) (simp add: pollRound_def)
  have "elapsed (snd (waitFrom p h 0)) = Suc k * txRetryIntervalMs p"
    unfolding found by (simp del: replicate.simps)
  then show "elapsed (snd (waitForUserOperationTransaction p h)) = (k + 1) * txRetryIntervalMs p"
    by (simp add: waitForUserOperationTransaction_def)
next
  assume "\<forall>j<txMaxRetries p. noReceipt (getUserOperationReceipt (rpcClient p) j h)"
  then have never: "waitFrom p h 0 =
      (Inl ConfirmationTimeoutError, concat (replicate (txMaxRetries p - 0) (pollRound p h)))"
    by (intro waitFrom_never) simp_all
  show "waitForUserOperationTransaction p h =
          (Inl ConfirmationTimeoutError,
           concat (replicate (txMaxRetries p)
                     [SetTimeout (txRetryIntervalMs p), GetUserOperationReceipt h]))"
    by (simp add: waitForUserOperationTransaction_def never) (simp add: pollRound_def)
  show "delays (snd (waitForUserOperationTransaction p h)) = txMaxRetries p"
    by (simp add: waitForUserOperationTransaction_def never)
  show "lookups (snd (waitForUserOperationTransaction p h)) = txMaxRetries p"
    by (simp add: waitForUserOperationTransaction_def never)
next
  from waitFrom_shape [of 0 p h]
  show "\<exists>n. n \<le> txMaxRetries p \<and>
        (snd (waitForUserOperationTransaction p h) =
           concat (replicate n [SetTimeout (txRetryIntervalMs p), GetUserOperationReceipt h])
         \<or> (\<exists>x. snd (waitForUserOperationTransaction p h) =
           concat (replicate n [SetTimeout (txRetryIntervalMs p), GetUserOperationReceipt h])
             @ [GetTransaction x]))"
    by (simp add: waitForUserOperationTransaction_def pollRound_def)
qed

theorem poller_waits_before_each_lookup_witness:
  "snd (waitForUserOperationTransaction example_provider (Hex ''aa'')) =
      [SetTimeout 2000, GetUserOperationReceipt (Hex ''aa''),
       SetTimeout 2000, GetUserOperationReceipt (Hex ''aa''),
       SetTimeout 2000, GetUserOperationReceipt (Hex ''aa''),
       GetTransaction (Hex ''bb'')]
   \<and> elapsed (snd (waitForUserOperationTransaction example_provider (Hex ''aa''))) = 6000
   \<and> waitForUserOperationTransaction (example_provider\<lparr>txMaxRetries := 1\<rparr>) (Hex ''aa'') =
       (Inl ConfirmationTimeoutError, [SetTimeout 2000, GetUserOperationReceipt (Hex ''aa'')])
   \<and> delays (snd (waitForUserOperationTransaction (example_provider\<lparr>txMaxRetries := 1\<rparr>)
                    (Hex ''aa''))) = 1"
proof -
  have a: "\<forall>j<2. noReceipt (getUserOperationReceipt (rpcClient example_provider) j (Hex ''aa''))"
    by (auto simp: noReceipt_def)
  have b: "\<forall>j<txMaxRetries (example_provider\<lparr>txMaxRetries := 1\<rparr>).
             noReceipt (getUserOperationReceipt
                          (rpcClient (example_provider\<lparr>txMaxRetries := 1\<rparr>)) j (Hex ''aa''))"
    by (simp add: noReceipt_def)
  show ?thesis
    using poller_waits_before_each_lookup
            [of 2 example_provider "Hex ''aa''" "\<lparr> receipt_transactionHash = Hex ''bb'' \<rparr>"]
      poller_waits_before_each_lookup [of 0 "example_provider\<lparr>txMaxRetries := 1\<rparr>" "Hex ''aa''"]
      a b
    by (simp add: numeral_3_eq_3 elapsed_def delays_def isDelay_def)
qed

section \<open>The default pipeline\<close>

lemma await_eq_InrD:
  assumes "await m f = (Inr y, tr)"
  shows "\<exists>x tr1 tr2. m = (Inr x, tr1) \<and> f x = (Inr y, tr2) \<and> tr = tr1 @ tr2"
  using assms by (auto simp: await_def split: prod.splits sum.splits)

lemma getAddress_bound [simp]:
  "account p = Some a \<Longrightarrow> getAddress p = (Inr (acc_getAddress a), [AccountGetAddress])"
  by (simp add: getAddress_def call_def)

lemma assembleRequest_result:
  assumes "account p = Some a"
  shows "assembleRequest p a target data val =
           (Inr \<lparr> sender = Some (acc_getAddress a), nonce = Some (acc_getNonce a),
                  initCode = Some (acc_getInitCode a),
                  callData = Some (acc_encodeExecute a target
                                     (case val of None \<Rightarrow> 0 | Some v \<Rightarrow> v) data),
                  callGasLimit = None, verificationGasLimit = None,
                  preVerificationGas = None, maxFeePerGas = None,
                  maxPriorityFeePerGas = None, paymasterAndData = None,
                  signature = Some (acc_getDummySignature a) \<rparr>,
            [AccountGetInitCode, AccountGetAddress, AccountGetNonce,
             AccountEncodeExecute target (case val of None \<Rightarrow> 0 | Some v \<Rightarrow> v) data,
             AccountGetDummySignature])"
  using assms by (simp add: assembleRequest_def resolve_def)

lemma isValidRequest_deepHexlify [simp]:
  "isValidRequest (deepHexlify struct) = isValidRequest struct"
  by (simp add: isValidRequest_def deepHexlify_def)

text \<open>The default pipeline, stage by stage.\<close>

lemma default_pipeline_result:
  assumes "asyncPipe [default_dummyPaymasterDataMiddleware, default_gasEstimator rpc ep,
                      default_feeDataGetter rpc minBid, default_paymasterMiddleware] struct
             = (Inr uoStruct, tr)"
  shows "\<exists>est s fd feeCap feeTip.
           estimateUserOperationGas rpc
             (deepHexlify (struct\<lparr>paymasterAndData := Some (Hex [])\<rparr>)) ep = Inr est
           \<and> getMaxPriorityFeePerGas rpc = Inr s \<and> getFeeData rpc = Inr fd
           \<and> fd_maxFeePerGas fd = Some feeCap \<and> fd_maxPriorityFeePerGas fd = Some feeTip
           \<and> uoStruct = struct\<lparr>paymasterAndData := Some (Hex []),
                 callGasLimit := Some (est_callGasLimit est),
                 verificationGasLimit := Some (est_verificationGasLimit est),
                 preVerificationGas := Some (est_preVerificationGas est),
                 maxFeePerGas := Some (feeCap - feeTip + max (bigint_div (s * 4) 3) minBid),
                 maxPriorityFeePerGas := Some (max (bigint_div (s * 4) 3) minBid)\<rparr>
           \<and> tr = [EstimateUserOperationGas
                     (deepHexlify (struct\<lparr>paymasterAndData := Some (Hex [])\<rparr>)) ep,
                   GetMaxPriorityFeePerGas, GetFeeData]"
proof -
  let ?s1 = "struct\<lparr>paymasterAndData := Some (Hex [])\<rparr>"
  from assms have a1: "await (default_gasEstimator rpc ep ?s1)
      (asyncPipe [default_feeDataGetter rpc minBid, default_paymasterMiddleware]) = (Inr uoStruct, tr)"
    by (simp add: default_dummyPaymasterDataMiddleware_def)
  from await_eq_InrD [OF a1] obtain s2 tr1 tr2 where
    g: "default_gasEstimator rpc ep ?s1 = (Inr s2, tr1)"
    and a2: "asyncPipe [default_feeDataGetter rpc minBid, default_paymasterMiddleware] s2
               = (Inr uoStruct, tr2)"
    and tr: "tr = tr1 @ tr2" by blast
  from g obtain est where
    est: "estimateUserOperationGas rpc (deepHexlify ?s1) ep = Inr est"
    and s2: "s2 = ?s1\<lparr>callGasLimit := Some (est_callGasLimit est),
                   verificationGasLimit := Some (est_verificationGasLimit est),
                   preVerificationGas := Some (est_preVerificationGas est)\<rparr>"
    and tr1: "tr1 = [EstimateUserOperationGas (deepHexlify ?s1) ep]"
    by (auto simp: gasEstimator_result split: sum.splits)
  from a2 have a3: "await (default_feeDataGetter rpc minBid s2)
      (asyncPipe [default_paymasterMiddleware]) = (Inr uoStruct, tr2)" by simp
  from await_eq_InrD [OF a3] obtain s3 tr3 tr4 where
    f: "default_feeDataGetter rpc minBid s2 = (Inr s3, tr3)"
    and a4: "asyncPipe [default_paymasterMiddleware] s3 = (Inr uoStruct, tr4)"
    and tr2: "tr2 = tr3 @ tr4" by blast
  from feeDataGetter_cases [OF f] obtain s fd feeCap feeTip where
    h: "getMaxPriorityFeePerGas rpc = Inr s" "getFeeData rpc = Inr fd"
       "fd_maxFeePerGas fd = Some feeCap" "feeCap \<noteq> 0"
       "fd_maxPriorityFeePerGas fd = Some feeTip" "feeTip \<noteq> 0"
    by auto
  from feeDataGetter_bids [OF h, of minBid s2] f
  have s3: "s3 = s2\<lparr>maxFeePerGas := Some (feeCap - feeTip + max (bigint_div (s * 4) 3) minBid),
                     maxPriorityFeePerGas := Some (max (bigint_div (s * 4) 3) minBid)\<rparr>"
    and tr3: "tr3 = [GetMaxPriorityFeePerGas, GetFeeData]" by simp_all
  from a4 have u: "uoStruct = s3\<lparr>paymasterAndData := Some (Hex [])\<rparr>" and tr4: "tr4 = []"
    by (simp_all add: default_paymasterMiddleware_def resolve_def)
  show ?thesis
    using est h(1,2,3,5) by (simp add: u s3 s2 tr tr1 tr2 tr3 tr4)
qed

lemma default_pipeline_valid:
  assumes "asyncPipe [default_dummyPaymasterDataMiddleware, default_gasEstimator rpc ep,
                      default_feeDataGetter rpc minBid, default_paymasterMiddleware] struct
             = (Inr uoStruct, tr)"
    and "sender struct \<noteq> None" and "nonce struct \<noteq> None" and "initCode struct \<noteq> None"
    and "callData struct \<noteq> None" and "signature struct \<noteq> None"
  shows "isValidRequest uoStruct"
  using default_pipeline_result [OF assms(1)] assms(2-6)
  by (clarsimp simp: isValidRequest_def)

lemma default_pipeline_runs:
  assumes "estimateUserOperationGas rpc
             (deepHexlify (struct\<lparr>paymasterAndData := Some (Hex [])\<rparr>)) ep = Inr est"
    and "getMaxPriorityFeePerGas rpc = Inr s"
    and "getFeeData rpc = Inr fd"
    and "fd_maxFeePerGas fd = Some feeCap" and "feeCap \<noteq> 0"
    and "fd_maxPriorityFeePerGas fd = Some feeTip" and "feeTip \<noteq> 0"
  shows "asyncPipe [default_dummyPaymasterDataMiddleware, default_gasEstimator rpc ep,
                    default_feeDataGetter rpc minBid, default_paymasterMiddleware] struct
           = (Inr (struct\<lparr>paymasterAndData := Some (Hex []),
                 callGasLimit := Some (est_callGasLimit est),
                 verificationGasLimit := Some (est_verificationGasLimit est),
                 preVerificationGas := Some (est_preVerificationGas est),
                 maxFeePerGas := Some (feeCap - feeTip + max (bigint_div (s * 4) 3) minBid),
                 maxPriorityFeePerGas := Some (max (bigint_div (s * 4) 3) minBid)\<rparr>),
              [EstimateUserOperationGas
                 (deepHexlify (struct\<lparr>paymasterAndData := Some (Hex [])\<rparr>)) ep,
               GetMaxPriorityFeePerGas, GetFeeData])"
  using assms(1)
  by (simp add: default_dummyPaymasterDataMiddleware_def gasEstimator_result
        feeDataGetter_bids [OF assms(2-7)] default_paymasterMiddleware_def resolve_def)

lemma middleware_new_provider:
  "middleware (new_SmartAccountProvider rpc ep chain acc opts hashFn) =
     asyncPipe [default_dummyPaymasterDataMiddleware, default_gasEstimator rpc ep,
                default_feeDataGetter rpc
                  (minPriorityFeePerBid (new_SmartAccountProvider rpc ep chain acc opts hashFn)),
                default_paymasterMiddleware]"
  by (simp add: middleware_def)

lemma await_eq_InlD:
  assumes "await m f = (Inl e, tr)"
  shows "m = (Inl e, tr) \<or> (\<exists>x tr1 tr2. m = (Inr x, tr1) \<and> f x = (Inl e, tr2) \<and> tr = tr1 @ tr2)"
  using assms by (auto simp: await_def split: prod.splits sum.splits)

lemma feeDataGetter_errors:
  assumes "default_feeDataGetter rpc minBid struct = (Inl e, tr)"
  shows "(\<exists>msg. e = BundlerError msg) \<or> e = InvalidFeeDataError"
  using assms
  by (cases "getMaxPriorityFeePerGas rpc"; cases "getFeeData rpc")
     (auto simp: default_feeDataGetter_def throw_def resolve_def Let_def
           split: if_splits option.splits)

lemma gasEstimator_errors:
  assumes "default_gasEstimator rpc ep struct = (Inl e, tr)"
  shows "\<exists>msg. e = BundlerError msg"
  using assms by (auto simp: gasEstimator_result split: sum.splits)

lemma default_pipeline_errors:
  assumes "asyncPipe [default_dummyPaymasterDataMiddleware, default_gasEstimator rpc ep,
                      default_feeDataGetter rpc minBid, default_paymasterMiddleware] struct
             = (Inl e, tr)"
  shows "(\<exists>msg. e = BundlerError msg) \<or> e = InvalidFeeDataError"
proof -
  let ?s1 = "struct\<lparr>paymasterAndData := Some (Hex [])\<rparr>"
  from assms have a1: "await (default_gasEstimator rpc ep ?s1)
      (asyncPipe [default_feeDataGetter rpc minBid, default_paymasterMiddleware]) = (Inl e, tr)"
    by (simp add: default_dummyPaymasterDataMiddleware_def)
  from await_eq_InlD [OF a1] show ?thesis
  proof
    assume "default_gasEstimator rpc ep ?s1 = (Inl e, tr)"
    then show ?thesis using gasEstimator_errors by blast
  next
    assume "\<exists>x tr1 tr2. default_gasEstimator rpc ep ?s1 = (Inr x, tr1)
        \<and> asyncPipe [default_feeDataGetter rpc minBid, default_paymasterMiddleware] x = (Inl e, tr2)
        \<and> tr = tr1 @ tr2"
    then obtain s2 tr2 where
      "await (default_feeDataGetter rpc minBid s2) (asyncPipe [default_paymasterMiddleware])
         = (Inl e, tr2)"
      by auto
    from await_eq_InlD [OF this] show ?thesis
    proof
      assume "default_feeDataGetter rpc minBid s2 = (Inl e, tr2)"
      then show ?thesis by (rule feeDataGetter_errors)
    next
      assume "\<exists>x tr1 tr2'. default_feeDataGetter rpc minBid s2 = (Inr x, tr1)
          \<and> asyncPipe [default_paymasterMiddleware] x = (Inl e, tr2') \<and> tr2 = tr1 @ tr2'"
      then show ?thesis
        by (auto simp: default_paymasterMiddleware_def resolve_def)
    qed
  qed
qed

text \<open>
  \<^verbatim>\<open>sendUserOperation\<close> after the pipeline: \<open>signed p a req\<close> is the request with the
  account's signature over its hash, \<open>hashMessage p req\<close> the message that is signed.
\<close>

lemma sendUserOperation_pipeline_fails:
  assumes "account p = Some a"
    and "await (assembleRequest p a target data val) (middleware p) = (Inl e, tr)"
  shows "sendUserOperation p target data val = (Inl e, tr)"
proof -
  have "sendUserOperation p target data val =
          await (await (assembleRequest p a target data val) (middleware p))
            (\<lambda>uoStruct.
               (let req = deepHexlify (resolveProperties uoStruct) in
                if \<not> isValidRequest req then throw (IncompleteRequestError req)
                else
                  await (call (AccountSignMessage (JString (hexString
                                  (getUserOperationHash p req (entryPointAddress p) (chain_id p)))))
                           (Inr (acc_signMessage a (JString (hexString
                                  (getUserOperationHash p req (entryPointAddress p) (chain_id p)))))))
                    (\<lambda>sig.
                  await (call (SendUserOperation (req\<lparr>signature := Some sig\<rparr>) (entryPointAddress p))
                           (rpc_sendUserOperation (rpcClient p) (req\<lparr>signature := Some sig\<rparr>)
                              (entryPointAddress p)))
                    (\<lambda>h. resolve \<lparr> res_hash = h,
                                   res_request = req\<lparr>signature := Some sig\<rparr> \<rparr>))))"
    by (simp add: sendUserOperation_def assms(1) await_assoc)
  then show ?thesis by (simp add: assms(2))
qed

lemma sendUserOperation_incomplete:
  assumes "account p = Some a"
    and "await (assembleRequest p a target data val) (middleware p) = (Inr uoStruct, tr)"
    and "\<not> isValidRequest (deepHexlify uoStruct)"
  shows "sendUserOperation p target data val =
           (Inl (IncompleteRequestError (deepHexlify uoStruct)), tr)"
proof -
  have "sendUserOperation p target data val =
          await (await (assembleRequest p a target data val) (middleware p))
            (\<lambda>uoStruct.
               (let req = deepHexlify (resolveProperties uoStruct) in
                if \<not> isValidRequest req then throw (IncompleteRequestError req)
                else
                  await (call (AccountSignMessage (JString (hexString
                                  (getUserOperationHash p req (entryPointAddress p) (chain_id p)))))
                           (Inr (acc_signMessage a (JString (hexString
                                  (getUserOperationHash p req (entryPointAddress p) (chain_id p)))))))
                    (\<lambda>sig.
                  await (call (SendUserOperation (req\<lparr>signature := Some sig\<rparr>) (entryPointAddress p))
                           (rpc_sendUserOperation (rpcClient p) (req\<lparr>signature := Some sig\<rparr>)
                              (entryPointAddress p)))
                    (\<lambda>h. resolve \<lparr> res_hash = h,
                                   res_request = req\<lparr>signature := Some sig\<rparr> \<rparr>))))"
    by (simp add: sendUserOperation_def assms(1) await_assoc)
  then show ?thesis
    using assms(3) by (simp add: assms(2) resolveProperties_def throw_def)
qed

lemma sendUserOperation_complete:
  assumes "account p = Some a"
    and "await (assembleRequest p a target data val) (middleware p) = (Inr uoStruct, tr)"
    and "isValidRequest (deepHexlify uoStruct)"
    and "msg = JString (hexString (getUserOperationHash p (deepHexlify uoStruct)
                                     (entryPointAddress p) (chain_id p)))"
    and "signed = (deepHexlify uoStruct)\<lparr>signature := Some (acc_signMessage a msg)\<rparr>"
  shows "sendUserOperation p target data val =
           ((case rpc_sendUserOperation (rpcClient p) signed (entryPointAddress p) of
               Inl m \<Rightarrow> Inl (BundlerError m)
             | Inr h \<Rightarrow> Inr \<lparr> res_hash = h, res_request = signed \<rparr>),
            tr @ [AccountSignMessage msg, SendUserOperation signed (entryPointAddress p)])"
proof -
  have "sendUserOperation p target data val =
          await (await (assembleRequest p a target data val) (middleware p))
            (\<lambda>uoStruct.
               (let req = deepHexlify (resolveProperties uoStruct) in
                if \<not> isValidRequest req then throw (IncompleteRequestError req)
                else
                  await (call (AccountSignMessage (JString (hexString
                                  (getUserOperationHash p req (entryPointAddress p) (chain_id p)))))
                           (Inr (acc_signMessage a (JString (hexString
                                  (getUserOperationHash p req (entryPointAddress p) (chain_id p)))))))
                    (\<lambda>sig.
                  await (call (SendUserOperation (req\<lparr>signature := Some sig\<rparr>) (entryPointAddress p))
                           (rpc_sendUserOperation (rpcClient p) (req\<lparr>signature := Some sig\<rparr>)
                              (entryPointAddress p)))
                    (\<lambda>h. resolve \<lparr> res_hash = h,
                                   res_request = req\<lparr>signature := Some sig\<rparr> \<rparr>))))"
    by (simp add: sendUserOperation_def assms(1) await_assoc)
  then show ?thesis
    using assms(3)
    by (cases "rpc_sendUserOperation (rpcClient p) signed (entryPointAddress p)")
       (simp_all add: assms(2,4,5) resolveProperties_def resolve_def Let_def)
qed

text \<open>
  Claim C3. A draft that the request assembler builds from a bound account, passed
  through the four default stages in their order (dummy paymaster, gas estimator, fee
  data, paymaster), has every field defined after the last stage, so the validator is
  never reached with a missing field: whenever the pipeline returns a draft, all eleven
  fields are set and the encoded request is valid, and \<^verbatim>\<open>sendUserOperation\<close> never fails
  with \<open>IncompleteRequestError\<close>. The pipeline does return a draft when the bundler client
  answers the gas estimate and the two fee queries, with fee data that the fee-data stage
  accepts.
\<close>

theorem default_pipeline_fills_every_field:
  assumes "p = new_SmartAccountProvider rpc ep chain (Some a) opts hashFn"
  shows "(\<forall>struct tr uoStruct tr'.
            assembleRequest p a target data val = (Inr struct, tr)
            \<and> middleware p struct = (Inr uoStruct, tr')
          \<longrightarrow> sender uoStruct \<noteq> None \<and> nonce uoStruct \<noteq> None \<and> initCode uoStruct \<noteq> None
              \<and> callData uoStruct \<noteq> None \<and> callGasLimit uoStruct \<noteq> None
              \<and> verificationGasLimit uoStruct \<noteq> None \<and> preVerificationGas uoStruct \<noteq> None
              \<and> maxFeePerGas uoStruct \<noteq> None \<and> maxPriorityFeePerGas uoStruct \<noteq> None
              \<and> paymasterAndData uoStruct \<noteq> None \<and> signature uoStruct \<noteq> None
              \<and> isValidRequest (deepHexlify (resolveProperties uoStruct)))
         \<and> (\<forall>req. fst (sendUserOperation p target data val) \<noteq> Inl (IncompleteRequestError req))
         \<and> ((\<forall>r. \<exists>est. estimateUserOperationGas rpc r ep = Inr est)
              \<and> getMaxPriorityFeePerGas rpc = Inr s
              \<and> getFeeData rpc = Inr \<lparr>fd_maxFeePerGas = Some feeCap,
                                         fd_maxPriorityFeePerGas = Some feeTip\<rparr>
              \<and> feeCap \<noteq> 0 \<and> feeTip \<noteq> 0
            \<longrightarrow> (\<exists>struct tr uoStruct tr'.
                  assembleRequest p a target data val = (Inr struct, tr)
                  \<and> middleware p struct = (Inr uoStruct, tr')))"
proof (intro conjI allI impI)
  fix struct tr uoStruct tr'
  assume h: "assembleRequest p a target data val = (Inr struct, tr)
            \<and> middleware p struct = (Inr uoStruct, tr')"
  have acc: "account p = Some a" by (simp add: assms)
  from h assembleRequest_result [OF acc, of target data val]
  have struct: "sender struct \<noteq> None" "nonce struct \<noteq> None" "initCode struct \<noteq> None"
    "callData struct \<noteq> None" "signature struct \<noteq> None"
    by auto
  from h have "asyncPipe [default_dummyPaymasterDataMiddleware, default_gasEstimator rpc ep,
                default_feeDataGetter rpc (minPriorityFeePerBid p),
                default_paymasterMiddleware] struct = (Inr uoStruct, tr')"
    by (simp add: assms middleware_new_provider)
  then have "isValidRequest uoStruct"
    using struct by (rule default_pipeline_valid)
  then have all: "sender uoStruct \<noteq> None \<and> nonce uoStruct \<noteq> None \<and> initCode uoStruct \<noteq> None
              \<and> callData uoStruct \<noteq> None \<and> callGasLimit uoStruct \<noteq> None
              \<and> verificationGasLimit uoStruct \<noteq> None \<and> preVerificationGas uoStruct \<noteq> None
              \<and> maxFeePerGas uoStruct \<noteq> None \<and> maxPriorityFeePerGas uoStruct \<noteq> None
              \<and> paymasterAndData uoStruct \<noteq> None \<and> signature uoStruct \<noteq> None"
    by (simp add: isValidRequest_def)
  then show "sender uoStruct \<noteq> None" "nonce uoStruct \<noteq> None" "initCode uoStruct \<noteq> None"
    "callData uoStruct \<noteq> None" "callGasLimit uoStruct \<noteq> None"
    "verificationGasLimit uoStruct \<noteq> None" "preVerificationGas uoStruct \<noteq> None"
    "maxFeePerGas uoStruct \<noteq> None" "maxPriorityFeePerGas uoStruct \<noteq> None"
    "paymasterAndData uoStruct \<noteq> None" "signature uoStruct \<noteq> None"
    by simp_all
  from all show "isValidRequest (deepHexlify (resolveProperties uoStruct))"
    by (simp add: resolveProperties_def) (simp add: isValidRequest_def)
next
  fix req
  have acc: "account p = Some a" by (simp add: assms)
  obtain struct tr0 where asm: "assembleRequest p a target data val = (Inr struct, tr0)"
    using assembleRequest_result [OF acc] by blast
  obtain r tr where run: "middleware p struct = (r, tr)" by (cases "middleware p struct")
  have mw: "middleware p struct =
      asyncPipe [default_dummyPaymasterDataMiddleware, default_gasEstimator rpc ep,
                default_feeDataGetter rpc (minPriorityFeePerBid p),
                default_paymasterMiddleware] struct"
    by (simp add: assms middleware_new_provider)
  show "fst (sendUserOperation p target data val) \<noteq> Inl (IncompleteRequestError req)"
  proof (cases r)
    case (Inl e)
    with run mw default_pipeline_errors [of rpc ep "minPriorityFeePerBid p" struct e tr]
    have e: "(\<exists>msg. e = BundlerError msg) \<or> e = InvalidFeeDataError" by simp
    have "await (assembleRequest p a target data val) (middleware p) = (Inl e, tr0 @ tr)"
      by (simp add: asm run Inl)
    from sendUserOperation_pipeline_fails [OF acc this] e show ?thesis by auto
  next
    case (Inr uoStruct)
    have struct: "sender struct \<noteq> None" "nonce struct \<noteq> None" "initCode struct \<noteq> None"
      "callData struct \<noteq> None" "signature struct \<noteq> None"
      using asm assembleRequest_result [OF acc, of target data val] by auto
    from run mw Inr have "asyncPipe [default_dummyPaymasterDataMiddleware,
        default_gasEstimator rpc ep, default_feeDataGetter rpc (minPriorityFeePerBid p),
        default_paymasterMiddleware] struct = (Inr uoStruct, tr)"
      by simp
    then have "isValidRequest uoStruct"
      using struct by (rule default_pipeline_valid)
    then have valid: "isValidRequest (deepHexlify uoStruct)" by simp
    have "await (assembleRequest p a target data val) (middleware p) = (Inr uoStruct, tr0 @ tr)"
      by (simp add: asm run Inr)
    from sendUserOperation_complete [OF acc this valid refl refl] show ?thesis
      by (simp split: sum.splits)
  qed
next
  assume h: "(\<forall>r. \<exists>est. estimateUserOperationGas rpc r ep = Inr est)
              \<and> getMaxPriorityFeePerGas rpc = Inr s
              \<and> getFeeData rpc = Inr \<lparr>fd_maxFeePerGas = Some feeCap,
                                         fd_maxPriorityFeePerGas = Some feeTip\<rparr>
              \<and> feeCap \<noteq> 0 \<and> feeTip \<noteq> 0"
  have acc: "account p = Some a" by (simp add: assms)
  let ?struct = "\<lparr> sender = Some (acc_getAddress a), nonce = Some (acc_getNonce a),
                  initCode = Some (acc_getInitCode a),
                  callData = Some (acc_encodeExecute a target
                                     (case val of None \<Rightarrow> 0 | Some v \<Rightarrow> v) data),
                  callGasLimit = None, verificationGasLimit = None,
                  preVerificationGas = None, maxFeePerGas = None,
                  maxPriorityFeePerGas = None, paymasterAndData = None,
                  signature = Some (acc_getDummySignature a) \<rparr>"
  from h obtain est where
    est: "estimateUserOperationGas rpc
            (deepHexlify (?struct\<lparr>paymasterAndData := Some (Hex [])\<rparr>)) ep = Inr est"
    by blast
  have "\<exists>uoStruct tr'. middleware p ?struct = (Inr uoStruct, tr')"
    unfolding assms middleware_new_provider
    using default_pipeline_runs [OF est, of s _ feeCap feeTip] h by fastforce
  with assembleRequest_result [OF acc, of target data val]
  show "\<exists>struct tr uoStruct tr'.
                  assembleRequest p a target data val = (Inr struct, tr)
                  \<and> middleware p struct = (Inr uoStruct, tr')"
    by blast
qed

lemma example_assembleRequest:
  "assembleRequest example_provider example_account (Hex ''02'') (Hex ''1234'') None =
     (Inr example_struct,
      [AccountGetInitCode, AccountGetAddress, AccountGetNonce,
       AccountEncodeExecute (Hex ''02'') 0 (Hex ''1234''), AccountGetDummySignature])"
  by (simp add: assembleRequest_result [of example_provider example_account] example_struct_def)

lemma example_middleware:
  "middleware example_provider struct =
     (Inr (struct\<lparr>paymasterAndData := Some (Hex []),
                   callGasLimit := Some 50000, verificationGasLimit := Some 100000,
                   preVerificationGas := Some 21000,
                   maxFeePerGas := Some 4333333333,
                   maxPriorityFeePerGas := Some 1333333333\<rparr>),
      [EstimateUserOperationGas (deepHexlify (struct\<lparr>paymasterAndData := Some (Hex [])\<rparr>))
         (Hex ''e0''),
       GetMaxPriorityFeePerGas, GetFeeData])"
  by (simp add: middleware_def default_dummyPaymasterDataMiddleware_def
        default_paymasterMiddleware_def resolve_def)

theorem default_pipeline_fills_every_field_witness:
  "assembleRequest example_provider example_account (Hex ''02'') (Hex ''1234'') None =
     (Inr example_struct,
      [AccountGetInitCode, AccountGetAddress, AccountGetNonce,
       AccountEncodeExecute (Hex ''02'') 0 (Hex ''1234''), AccountGetDummySignature])
   \<and> middleware example_provider example_struct =
     (Inr example_uoStruct,
      [EstimateUserOperationGas
         (deepHexlify (example_struct\<lparr>paymasterAndData := Some (Hex [])\<rparr>)) (Hex ''e0''),
       GetMaxPriorityFeePerGas, GetFeeData])
   \<and> callGasLimit example_uoStruct \<noteq> None \<and> maxFeePerGas example_uoStruct \<noteq> None
   \<and> paymasterAndData example_uoStruct \<noteq> None
   \<and> isValidRequest (deepHexlify (resolveProperties example_uoStruct))"
proof -
  have a: "assembleRequest example_provider example_account (Hex ''02'') (Hex ''1234'') None =
     (Inr example_struct,
      [AccountGetInitCode, AccountGetAddress, AccountGetNonce,
       AccountEncodeExecute (Hex ''02'') 0 (Hex ''1234''), AccountGetDummySignature])"
    by (rule example_assembleRequest)
  have m: "middleware example_provider example_struct =
     (Inr example_uoStruct,
      [EstimateUserOperationGas
         (deepHexlify (example_struct\<lparr>paymasterAndData := Some (Hex [])\<rparr>)) (Hex ''e0''),
       GetMaxPriorityFeePerGas, GetFeeData])"
    by (simp add: example_middleware example_uoStruct_def)
  from default_pipeline_fills_every_field
         [OF example_provider_def, of "Hex ''02''" "Hex ''1234''" None] a m
  have "callGasLimit example_uoStruct \<noteq> None \<and> maxFeePerGas example_uoStruct \<noteq> None
   \<and> paymasterAndData example_uoStruct \<noteq> None
   \<and> isValidRequest (deepHexlify (resolveProperties example_uoStruct))"
    by blast
  with a m show ?thesis by simp
qed

section \<open>Validation, signing and submission\<close>

lemma example_assemble:
  "assembleRequest example_provider example_account (Hex ''02'') (Hex ''1234'') val =
     (Inr example_struct,
      [AccountGetInitCode, AccountGetAddress, AccountGetNonce,
       AccountEncodeExecute (Hex ''02'') (case val of None \<Rightarrow> 0 | Some v \<Rightarrow> v) (Hex ''1234''),
       AccountGetDummySignature])"
  by (simp add: assembleRequest_result [of example_provider example_account] example_struct_def)

lemma example_wait:
  "waitForUserOperationTransaction example_provider h =
     (Inr (Hex ''bb''),
      [SetTimeout 2000, GetUserOperationReceipt h, SetTimeout 2000, GetUserOperationReceipt h,
       SetTimeout 2000, GetUserOperationReceipt h, GetTransaction (Hex ''bb'')])"
proof -
  have "\<forall>j. 0 \<le> j \<and> j < 2 \<longrightarrow> noReceipt (getUserOperationReceipt (rpcClient example_provider) j h)"
    by (auto simp: noReceipt_def)
  from waitFrom_found [of 2 example_provider 0 h "\<lparr> receipt_transactionHash = Hex ''bb'' \<rparr>", OF _ this]
  show ?thesis
    by (simp add: waitForUserOperationTransaction_def numeral_3_eq_3 pollRound_def)
qed

text \<open>
  Claim C5. After the pipeline, \<^verbatim>\<open>sendUserOperation\<close> encodes every numeric field of the
  draft to its hex form and checks the result for completeness. If a field is unset, it
  fails with \<open>IncompleteRequestError\<close>, which carries the encoded partial request, and the
  events are those of the assembler and the pipeline alone: nothing is signed and nothing
  is submitted. Only a request with every field set goes on, and then the account signs
  the request hash and the signed request is sent to the bundler client, in this order.
\<close>

theorem validation_is_the_gate_before_signing:
  assumes "account p = Some a"
    and "await (assembleRequest p a target data val) (middleware p) = (Inr uoStruct, tr)"
    and "req = deepHexlify (resolveProperties uoStruct)"
    and "msg = JString (hexString (getUserOperationHash p req (entryPointAddress p) (chain_id p)))"
    and "signed = req\<lparr>signature := Some (acc_signMessage a msg)\<rparr>"
  shows "nonce req = map_option toHex (nonce uoStruct)
       \<and> callGasLimit req = map_option toHex (callGasLimit uoStruct)
       \<and> verificationGasLimit req = map_option toHex (verificationGasLimit uoStruct)
       \<and> preVerificationGas req = map_option toHex (preVerificationGas uoStruct)
       \<and> maxFeePerGas req = map_option toHex (maxFeePerGas uoStruct)
       \<and> maxPriorityFeePerGas req = map_option toHex (maxPriorityFeePerGas uoStruct)
       \<and> isValidRequest req =
           (sender uoStruct \<noteq> None \<and> nonce uoStruct \<noteq> None \<and> initCode uoStruct \<noteq> None
            \<and> callData uoStruct \<noteq> None \<and> callGasLimit uoStruct \<noteq> None
            \<and> verificationGasLimit uoStruct \<noteq> None \<and> preVerificationGas uoStruct \<noteq> None
            \<and> maxFeePerGas uoStruct \<noteq> None \<and> maxPriorityFeePerGas uoStruct \<noteq> None
            \<and> paymasterAndData uoStruct \<noteq> None \<and> signature uoStruct \<noteq> None)
       \<and> (\<not> isValidRequest req \<longrightarrow>
             sendUserOperation p target data val = (Inl (IncompleteRequestError req), tr))
       \<and> (isValidRequest req \<longrightarrow>
             sendUserOperation p target data val =
               ((case rpc_sendUserOperation (rpcClient p) signed (entryPointAddress p) of
                   Inl m \<Rightarrow> Inl (BundlerError m)
                 | Inr h \<Rightarrow> Inr \<lparr> res_hash = h, res_request = signed \<rparr>),
                tr @ [AccountSignMessage msg, SendUserOperation signed (entryPointAddress p)]))"
proof -
  have req: "req = deepHexlify uoStruct" by (simp add: assms(3) resolveProperties_def)
  have fields: "nonce req = map_option toHex (nonce uoStruct)
       \<and> callGasLimit req = map_option toHex (callGasLimit uoStruct)
       \<and> verificationGasLimit req = map_option toHex (verificationGasLimit uoStruct)
       \<and> preVerificationGas req = map_option toHex (preVerificationGas uoStruct)
       \<and> maxFeePerGas req = map_option toHex (maxFeePerGas uoStruct)
       \<and> maxPriorityFeePerGas req = map_option toHex (maxPriorityFeePerGas uoStruct)"
    by (simp add: req deepHexlify_def)
  have valid: "isValidRequest req =
           (sender uoStruct \<noteq> None \<and> nonce uoStruct \<noteq> None \<and> initCode uoStruct \<noteq> None
            \<and> callData uoStruct \<noteq> None \<and> callGasLimit uoStruct \<noteq> None
            \<and> verificationGasLimit uoStruct \<noteq> None \<and> preVerificationGas uoStruct \<noteq> None
            \<and> maxFeePerGas uoStruct \<noteq> None \<and> maxPriorityFeePerGas uoStruct \<noteq> None
            \<and> paymasterAndData uoStruct \<noteq> None \<and> signature uoStruct \<noteq> None)"
    by (simp add: req) (simp add: isValidRequest_def)
  have bad: "\<not> isValidRequest req \<longrightarrow>
             sendUserOperation p target data val = (Inl (IncompleteRequestError req), tr)"
    using sendUserOperation_incomplete [OF assms(1,2)] by (simp add: req)
  have good: "isValidRequest req \<longrightarrow>
             sendUserOperation p target data val =
               ((case rpc_sendUserOperation (rpcClient p) signed (entryPointAddress p) of
                   Inl m \<Rightarrow> Inl (BundlerError m)
                 | Inr h \<Rightarrow> Inr \<lparr> res_hash = h, res_request = signed \<rparr>),
                tr @ [AccountSignMessage msg, SendUserOperation signed (entryPointAddress p)])"
    using sendUserOperation_complete [OF assms(1,2), of msg signed] assms(4,5)
    by (simp add: req)
  from fields valid bad good show ?thesis by blast
qed

lemma example_incomplete_run:
  "await (assembleRequest (withGasEstimator example_provider noOpMiddleware) example_account
            (Hex ''02'') (Hex ''1234'') None)
         (middleware (withGasEstimator example_provider noOpMiddleware)) =
     (Inr (example_struct\<lparr>paymasterAndData := Some (Hex []),
                           maxFeePerGas := Some 4333333333,
                           maxPriorityFeePerGas := Some 1333333333\<rparr>),
      [AccountGetInitCode, AccountGetAddress, AccountGetNonce,
       AccountEncodeExecute (Hex ''02'') 0 (Hex ''1234''), AccountGetDummySignature,
       GetMaxPriorityFeePerGas, GetFeeData])"
proof -
  have "assembleRequest (withGasEstimator example_provider noOpMiddleware) example_account
            (Hex ''02'') (Hex ''1234'') None =
     (Inr example_struct,
      [AccountGetInitCode, AccountGetAddress, AccountGetNonce,
       AccountEncodeExecute (Hex ''02'') 0 (Hex ''1234''), AccountGetDummySignature])"
    by (simp add: assembleRequest_result [of _ example_account] withGasEstimator_def
          example_struct_def)
  then show ?thesis
    by (simp add: middleware_def withGasEstimator_def noOpMiddleware_def
          default_dummyPaymasterDataMiddleware_def default_paymasterMiddleware_def resolve_def)
qed

lemma example_complete_run:
  "await (assembleRequest example_provider example_account (Hex ''02'') (Hex ''1234'') val)
         (middleware example_provider) =
     (Inr example_uoStruct,
      [AccountGetInitCode, AccountGetAddress, AccountGetNonce,
       AccountEncodeExecute (Hex ''02'') (case val of None \<Rightarrow> 0 | Some v \<Rightarrow> v) (Hex ''1234''),
       AccountGetDummySignature,
       EstimateUserOperationGas
         (deepHexlify (example_struct\<lparr>paymasterAndData := Some (Hex [])\<rparr>)) (Hex ''e0''),
       GetMaxPriorityFeePerGas, GetFeeData])"
  by (simp add: example_assemble example_middleware example_uoStruct_def)

lemma example_uoStruct_valid [simp]: "isValidRequest example_uoStruct"
  by (simp add: isValidRequest_def example_uoStruct_def example_struct_def)

lemma example_sendUserOperation:
  "sendUserOperation example_provider (Hex ''02'') (Hex ''1234'') val =
     (Inr \<lparr> res_hash = Hex ''aa'',
            res_request = (deepHexlify example_uoStruct)\<lparr>signature := Some (Hex ''5167'')\<rparr> \<rparr>,
      [AccountGetInitCode, AccountGetAddress, AccountGetNonce,
       AccountEncodeExecute (Hex ''02'') (case val of None \<Rightarrow> 0 | Some v \<Rightarrow> v) (Hex ''1234''),
       AccountGetDummySignature,
       EstimateUserOperationGas
         (deepHexlify (example_struct\<lparr>paymasterAndData := Some (Hex [])\<rparr>)) (Hex ''e0''),
       GetMaxPriorityFeePerGas, GetFeeData,
       AccountSignMessage (JString ''0xcafe''),
       SendUserOperation ((deepHexlify example_uoStruct)\<lparr>signature := Some (Hex ''5167'')\<rparr>)
         (Hex ''e0'')])"
  using sendUserOperation_complete [OF _ example_complete_run, of _ _ val, OF _ _ refl refl]
  by (simp add: hexString_def)

theorem validation_is_the_gate_before_signing_witness:
  "sendUserOperation (withGasEstimator example_provider noOpMiddleware)
      (Hex ''02'') (Hex ''1234'') None =
     (Inl (IncompleteRequestError
             (deepHexlify (example_struct\<lparr>paymasterAndData := Some (Hex []),
                             maxFeePerGas := Some 4333333333,
                             maxPriorityFeePerGas := Some 1333333333\<rparr>))),
      [AccountGetInitCode, AccountGetAddress, AccountGetNonce,
       AccountEncodeExecute (Hex ''02'') 0 (Hex ''1234''), AccountGetDummySignature,
       GetMaxPriorityFeePerGas, GetFeeData])
   \<and> sendUserOperation example_provider (Hex ''02'') (Hex ''1234'') None =
     (Inr \<lparr> res_hash = Hex ''aa'',
            res_request = (deepHexlify example_uoStruct)\<lparr>signature := Some (Hex ''5167'')\<rparr> \<rparr>,
      [AccountGetInitCode, AccountGetAddress, AccountGetNonce,
       AccountEncodeExecute (Hex ''02'') 0 (Hex ''1234''), AccountGetDummySignature,
       EstimateUserOperationGas
         (deepHexlify (example_struct\<lparr>paymasterAndData := Some (Hex [])\<rparr>)) (Hex ''e0''),
       GetMaxPriorityFeePerGas, GetFeeData,
       AccountSignMessage (JString ''0xcafe''),
       SendUserOperation ((deepHexlify example_uoStruct)\<lparr>signature := Some (Hex ''5167'')\<rparr>)
         (Hex ''e0'')])"
proof -
  have acc1: "account (withGasEstimator example_provider noOpMiddleware) = Some example_account"
    by (simp add: withGasEstimator_def)
  have invalid: "\<not> isValidRequest (deepHexlify (resolveProperties
                   (example_struct\<lparr>paymasterAndData := Some (Hex []),
                             maxFeePerGas := Some 4333333333,
                             maxPriorityFeePerGas := Some 1333333333\<rparr>)))"
    by (simp add: resolveProperties_def) (simp add: isValidRequest_def example_struct_def)
  from validation_is_the_gate_before_signing [OF acc1 example_incomplete_run refl refl refl] invalid
  have first: "sendUserOperation (withGasEstimator example_provider noOpMiddleware)
      (Hex ''02'') (Hex ''1234'') None =
     (Inl (IncompleteRequestError
             (deepHexlify (example_struct\<lparr>paymasterAndData := Some (Hex []),
                             maxFeePerGas := Some 4333333333,
                             maxPriorityFeePerGas := Some 1333333333\<rparr>))),
      [AccountGetInitCode, AccountGetAddress, AccountGetNonce,
       AccountEncodeExecute (Hex ''02'') 0 (Hex ''1234''), AccountGetDummySignature,
       GetMaxPriorityFeePerGas, GetFeeData])"
    by (simp add: resolveProperties_def)
  have acc2: "account example_provider = Some example_account" by simp
  have valid: "isValidRequest (deepHexlify (resolveProperties example_uoStruct))"
    by (simp add: resolveProperties_def)
  from validation_is_the_gate_before_signing
         [OF acc2 example_complete_run [of None] refl refl refl] valid
  have second: "sendUserOperation example_provider (Hex ''02'') (Hex ''1234'') None =
     (Inr \<lparr> res_hash = Hex ''aa'',
            res_request = (deepHexlify example_uoStruct)\<lparr>signature := Some (Hex ''5167'')\<rparr> \<rparr>,
      [AccountGetInitCode, AccountGetAddress, AccountGetNonce,
       AccountEncodeExecute (Hex ''02'') 0 (Hex ''1234''), AccountGetDummySignature,
       EstimateUserOperationGas
         (deepHexlify (example_struct\<lparr>paymasterAndData := Some (Hex [])\<rparr>)) (Hex ''e0''),
       GetMaxPriorityFeePerGas, GetFeeData,
       AccountSignMessage (JString ''0xcafe''),
       SendUserOperation ((deepHexlify example_uoStruct)\<lparr>signature := Some (Hex ''5167'')\<rparr>)
         (Hex ''e0'')])"
    by (simp add: resolveProperties_def hexString_def)
  from first second show ?thesis by simp
qed

section \<open>The entry points without an account, the transaction facade and the RPC surface\<close>

lemma sendUserOperation_unbound:
  "account p = None \<Longrightarrow> sendUserOperation p target data val = (Inl AccountNotConnectedError, [])"
  by (simp add: sendUserOperation_def throw_def)

lemma request_forwards:
  assumes "method \<noteq> ''eth_sendTransaction''" and "method \<noteq> ''eth_sign''"
    and "method \<noteq> ''personal_sign''"
  shows "request p method params =
           ((case rpc_request (rpcClient p) method params of
               Inl m \<Rightarrow> Inl (BundlerError m) | Inr v \<Rightarrow> Inr v),
            [RpcRequest method params])"
  using assms by (simp add: request_def call_def split: sum.splits)

lemma sendTransaction_decoded:
  assumes "tx_to tx = Some target"
    and "(case tx_value tx of None \<Rightarrow> Inr 0 | Some v \<Rightarrow> fromHex v) = Inr n"
  shows "sendTransaction p tx =
           await (sendUserOperation p target (case tx_data tx of None \<Rightarrow> Hex [] | Some d \<Rightarrow> d)
                    (Some n))
             (\<lambda>res. waitForUserOperationTransaction p (res_hash res))"
  using assms by (simp add: sendTransaction_def resolve_def split: option.splits)

text \<open>
  Claim C6. With no account bound, \<^verbatim>\<open>sendUserOperation\<close> fails with
  \<open>AccountNotConnectedError\<close> and causes no event at all, so no call reaches the bundler
  client; so do \<^verbatim>\<open>getAddress\<close>, message signing through \<^verbatim>\<open>request\<close>, and \<^verbatim>\<open>sendTransaction\<close>
  of a transaction with a target and a well-formed amount. Every other RPC method is
  still forwarded to the bundler client, and once an account is attached with
  \<^verbatim>\<open>connect\<close> its address is returned.
\<close>

theorem unbound_account_fails_before_any_call:
  assumes "account p = None"
  shows "sendUserOperation p target data val = (Inl AccountNotConnectedError, [])
       \<and> getAddress p = (Inl AccountNotConnectedError, [])
       \<and> request p ''eth_sign'' params = (Inl AccountNotConnectedError, [])
       \<and> request p ''personal_sign'' params = (Inl AccountNotConnectedError, [])
       \<and> (tx_to tx = Some t
            \<and> (case tx_value tx of None \<Rightarrow> Inr 0 | Some v \<Rightarrow> fromHex v) = Inr n
          \<longrightarrow> sendTransaction p tx = (Inl AccountNotConnectedError, [])
              \<and> request p ''eth_sendTransaction'' (Some [JTx tx])
                  = (Inl AccountNotConnectedError, []))
       \<and> (meth \<noteq> ''eth_sendTransaction'' \<and> meth \<noteq> ''eth_sign''
            \<and> meth \<noteq> ''personal_sign''
          \<longrightarrow> request p meth params =
                ((case rpc_request (rpcClient p) meth params of
                    Inl m \<Rightarrow> Inl (BundlerError m) | Inr v \<Rightarrow> Inr v),
                 [RpcRequest meth params]))
       \<and> getAddress (connect p fn) = (Inr (acc_getAddress (fn (rpcClient p))), [AccountGetAddress])"
proof (intro conjI impI)
  show "sendUserOperation p target data val = (Inl AccountNotConnectedError, [])"
    using assms by (rule sendUserOperation_unbound)
  show "getAddress p = (Inl AccountNotConnectedError, [])"
    using assms by (simp add: getAddress_def throw_def)
  show "request p ''eth_sign'' params = (Inl AccountNotConnectedError, [])"
    using assms by (simp add: request_def throw_def)
  show "request p ''personal_sign'' params = (Inl AccountNotConnectedError, [])"
    using assms by (simp add: request_def throw_def)
  show "getAddress (connect p fn) = (Inr (acc_getAddress (fn (rpcClient p))), [AccountGetAddress])"
    by (simp add: connect_def)
next
  assume h: "tx_to tx = Some t
            \<and> (case tx_value tx of None \<Rightarrow> Inr 0 | Some v \<Rightarrow> fromHex v) = Inr n"
  then have "sendTransaction p tx =
           await (sendUserOperation p t (case tx_data tx of None \<Rightarrow> Hex [] | Some d \<Rightarrow> d)
                    (Some n))
             (\<lambda>res. waitForUserOperationTransaction p (res_hash res))"
    by (intro sendTransaction_decoded) simp_all
  then show st: "sendTransaction p tx = (Inl AccountNotConnectedError, [])"
    by (simp add: sendUserOperation_unbound [OF assms])
  show "request p ''eth_sendTransaction'' (Some [JTx tx]) = (Inl AccountNotConnectedError, [])"
    by (simp add: request_def element_def st)
next
  assume "meth \<noteq> ''eth_sendTransaction'' \<and> meth \<noteq> ''eth_sign''
            \<and> meth \<noteq> ''personal_sign''"
  then show "request p meth params =
                ((case rpc_request (rpcClient p) meth params of
                    Inl m \<Rightarrow> Inl (BundlerError m) | Inr v \<Rightarrow> Inr v),
                 [RpcRequest meth params])"
    by (intro request_forwards) simp_all
qed

theorem unbound_account_fails_before_any_call_witness:
  "sendUserOperation (example_provider\<lparr>account := None\<rparr>) (Hex ''02'') (Hex ''1234'') None
     = (Inl AccountNotConnectedError, [])
   \<and> sendTransaction (example_provider\<lparr>account := None\<rparr>)
       \<lparr> tx_to = Some (Hex ''02''), tx_data = None, tx_value = Some (Hex ''1f'') \<rparr>
     = (Inl AccountNotConnectedError, [])
   \<and> request (example_provider\<lparr>account := None\<rparr>) ''eth_chainId'' None
     = (Inr (JString ''0xaa36a7''), [RpcRequest ''eth_chainId'' None])
   \<and> getAddress (connect (example_provider\<lparr>account := None\<rparr>) (\<lambda>c. example_account))
     = (Inr (Hex ''01''), [AccountGetAddress])"
proof -
  have dec: "(case tx_value \<lparr> tx_to = Some (Hex ''02''), tx_data = None,
                               tx_value = Some (Hex ''1f'') \<rparr> of
                None \<Rightarrow> Inr 0 | Some v \<Rightarrow> fromHex v) = Inr 31"
    by (simp add: fromHex_def trimEnd_def isWhiteSpace_def digitVal_def)
  from unbound_account_fails_before_any_call
         [where p = "example_provider\<lparr>account := None\<rparr>"
            and tx = "\<lparr> tx_to = Some (Hex ''02''), tx_data = None,
                       tx_value = Some (Hex ''1f'') \<rparr>"
            and t = "Hex ''02''" and n = 31 and meth = "''eth_chainId''"
            and target = "Hex ''02''" and data = "Hex ''1234''" and val = None
            and params = None and fn = "\<lambda>c. example_account"] dec
  show ?thesis by simp
qed

text \<open>
  Claim C7. \<^verbatim>\<open>sendTransaction\<close> of a request with no target address fails with
  \<open>InvalidRecipientError\<close> and causes no event. Otherwise it runs \<^verbatim>\<open>sendUserOperation\<close> with
  the target \<^verbatim>\<open>to\<close>, the payload \<^verbatim>\<open>data\<close> (the empty byte string when absent) and the
  decoded amount (zero when absent), hands the submission hash to the confirmation
  poller and returns what the poller returns, the hash of the resolved transaction; a
  failure of the submission is passed on without polling.
\<close>

theorem sendTransaction_facade:
  "(tx_to tx = None \<longrightarrow> sendTransaction p tx = (Inl InvalidRecipientError, []))
   \<and> (tx_to tx = Some target
        \<and> (case tx_value tx of None \<Rightarrow> Inr 0 | Some v \<Rightarrow> fromHex v) = Inr n
        \<and> payload = (case tx_data tx of None \<Rightarrow> Hex [] | Some d \<Rightarrow> d)
      \<longrightarrow> sendTransaction p tx =
            await (sendUserOperation p target payload (Some n))
              (\<lambda>res. waitForUserOperationTransaction p (res_hash res))
          \<and> (\<forall>res tr1 r tr2.
                sendUserOperation p target payload (Some n) = (Inr res, tr1)
                \<and> waitForUserOperationTransaction p (res_hash res) = (r, tr2)
              \<longrightarrow> sendTransaction p tx = (r, tr1 @ tr2))
          \<and> (\<forall>e tr1. sendUserOperation p target payload (Some n) = (Inl e, tr1)
              \<longrightarrow> sendTransaction p tx = (Inl e, tr1)))"
proof (intro conjI impI allI)
  assume "tx_to tx = None"
  then show "sendTransaction p tx = (Inl InvalidRecipientError, [])"
    by (simp add: sendTransaction_def throw_def)
next
  assume h: "tx_to tx = Some target
        \<and> (case tx_value tx of None \<Rightarrow> Inr 0 | Some v \<Rightarrow> fromHex v) = Inr n
        \<and> payload = (case tx_data tx of None \<Rightarrow> Hex [] | Some d \<Rightarrow> d)"
  then show eq: "sendTransaction p tx =
            await (sendUserOperation p target payload (Some n))
              (\<lambda>res. waitForUserOperationTransaction p (res_hash res))"
    using sendTransaction_decoded [of tx target n p] by simp
  {
    fix res tr1 r tr2
    assume "sendUserOperation p target payload (Some n) = (Inr res, tr1)
                \<and> waitForUserOperationTransaction p (res_hash res) = (r, tr2)"
    then show "sendTransaction p tx = (r, tr1 @ tr2)" by (simp add: eq)
  }
  {
    fix e tr1
    assume "sendUserOperation p target payload (Some n) = (Inl e, tr1)"
    then show "sendTransaction p tx = (Inl e, tr1)" by (simp add: eq)
  }
qed

theorem sendTransaction_facade_witness:
  "sendTransaction example_provider \<lparr> tx_to = None, tx_data = Some (Hex ''1234''), tx_value = None \<rparr>
     = (Inl InvalidRecipientError, [])
   \<and> fst (sendTransaction example_provider
            \<lparr> tx_to = Some (Hex ''02''), tx_data = Some (Hex ''1234''),
              tx_value = Some (Hex ''1f'') \<rparr>) = Inr (Hex ''bb'')
   \<and> lookups (snd (sendTransaction example_provider
            \<lparr> tx_to = Some (Hex ''02''), tx_data = Some (Hex ''1234''),
              tx_value = Some (Hex ''1f'') \<rparr>)) = 3"
proof -
  let ?tx = "\<lparr> tx_to = Some (Hex ''02''), tx_data = Some (Hex ''1234''),
               tx_value = Some (Hex ''1f'') \<rparr>"
  have dec: "(case tx_value ?tx of None \<Rightarrow> Inr 0 | Some v \<Rightarrow> fromHex v) = Inr 31"
    by (simp add: fromHex_def trimEnd_def isWhiteSpace_def digitVal_def)
  from sendTransaction_facade
         [where tx = "\<lparr> tx_to = None, tx_data = Some (Hex ''1234''), tx_value = None \<rparr>"
            and p = example_provider]
  have first: "sendTransaction example_provider
                 \<lparr> tx_to = None, tx_data = Some (Hex ''1234''), tx_value = None \<rparr>
               = (Inl InvalidRecipientError, [])"
    by simp
  from sendTransaction_facade [where tx = ?tx and p = example_provider and target = "Hex ''02''"
         and n = 31 and payload = "Hex ''1234''"] dec
  have "sendTransaction example_provider ?tx =
          await (sendUserOperation example_provider (Hex ''02'') (Hex ''1234'') (Some 31))
            (\<lambda>res. waitForUserOperationTransaction example_provider (res_hash res))"
    by simp
  then have "fst (sendTransaction example_provider ?tx) = Inr (Hex ''bb'')
    \<and> lookups (snd (sendTransaction example_provider ?tx)) = 3"
    by (simp add: example_sendUserOperation example_wait lookups_def isReceiptLookup_def)
  with first show ?thesis by simp
qed

text \<open>
  What \<^verbatim>\<open>request\<close> does for \<^verbatim>\<open>eth_sign\<close> and \<^verbatim>\<open>personal_sign\<close>: it fails with
  \<open>AccountNotConnectedError\<close> when no account is bound; with an account it reads the
  parameters of both methods as \<^verbatim>\<open>[data, address]\<close>, fails with
  \<open>UnsupportedSignerMismatchError\<close> when the second parameter is not, character by
  character, the string of the account's address, and returns the account's signature over
  the first parameter when it is. Every method other than these two and
  \<^verbatim>\<open>eth_sendTransaction\<close> is forwarded unchanged to the bundler client.
\<close>

lemma signing_passthrough:
  "(meth = ''eth_sign'' \<or> meth = ''personal_sign'' \<longrightarrow>
      (account p = None \<longrightarrow> request p meth params = (Inl AccountNotConnectedError, []))
      \<and> (account p = Some a \<and> params = Some ps
            \<and> element ps 1 \<noteq> JString (hexString (acc_getAddress a))
          \<longrightarrow> request p meth params = (Inl UnsupportedSignerMismatchError, [AccountGetAddress]))
      \<and> (account p = Some a \<and> params = Some ps
            \<and> element ps 1 = JString (hexString (acc_getAddress a))
          \<longrightarrow> request p meth params =
                (Inr (JString (hexString (acc_signMessage a (element ps 0)))),
                 [AccountGetAddress, AccountSignMessage (element ps 0)])))
   \<and> (meth \<noteq> ''eth_sendTransaction'' \<and> meth \<noteq> ''eth_sign'' \<and> meth \<noteq> ''personal_sign''
      \<longrightarrow> request p meth params =
            ((case rpc_request (rpcClient p) meth params of
                Inl m \<Rightarrow> Inl (BundlerError m) | Inr v \<Rightarrow> Inr v),
             [RpcRequest meth params]))"
proof (intro conjI impI)
  assume "meth = ''eth_sign'' \<or> meth = ''personal_sign''" and "account p = None"
  then show "request p meth params = (Inl AccountNotConnectedError, [])"
    by (auto simp: request_def throw_def)
next
  assume "meth = ''eth_sign'' \<or> meth = ''personal_sign''"
    and "account p = Some a \<and> params = Some ps
            \<and> element ps 1 \<noteq> JString (hexString (acc_getAddress a))"
  then show "request p meth params = (Inl UnsupportedSignerMismatchError, [AccountGetAddress])"
    by (auto simp: request_def throw_def)
next
  assume "meth = ''eth_sign'' \<or> meth = ''personal_sign''"
    and "account p = Some a \<and> params = Some ps
            \<and> element ps 1 = JString (hexString (acc_getAddress a))"
  then show "request p meth params =
                (Inr (JString (hexString (acc_signMessage a (element ps 0)))),
                 [AccountGetAddress, AccountSignMessage (element ps 0)])"
    by (auto simp: request_def resolve_def)
next
  assume "meth \<noteq> ''eth_sendTransaction'' \<and> meth \<noteq> ''eth_sign'' \<and> meth \<noteq> ''personal_sign''"
  then show "request p meth params =
            ((case rpc_request (rpcClient p) meth params of
                Inl m \<Rightarrow> Inl (BundlerError m) | Inr v \<Rightarrow> Inr v),
             [RpcRequest meth params])"
    by (intro request_forwards) simp_all
qed

lemma signing_passthrough_examples:
  "request example_provider ''personal_sign'' (Some [JString ''hello'', JString ''0x01''])
     = (Inr (JString ''0x5167''), [AccountGetAddress, AccountSignMessage (JString ''hello'')])
   \<and> request example_provider ''eth_sign'' (Some [JString ''hello'', JString ''0x02''])
     = (Inl UnsupportedSignerMismatchError, [AccountGetAddress])
   \<and> request (example_provider\<lparr>account := None\<rparr>) ''personal_sign''
       (Some [JString ''hello'', JString ''0x01''])
     = (Inl AccountNotConnectedError, [])
   \<and> request example_provider ''eth_chainId'' None
     = (Inr (JString ''0xaa36a7''), [RpcRequest ''eth_chainId'' None])"
  using signing_passthrough [where meth = "''personal_sign''" and p = example_provider
          and params = "Some [JString ''hello'', JString ''0x01'']" and a = example_account
          and ps = "[JString ''hello'', JString ''0x01'']"]
    signing_passthrough [where meth = "''eth_sign''" and p = example_provider
          and params = "Some [JString ''hello'', JString ''0x02'']" and a = example_account
          and ps = "[JString ''hello'', JString ''0x02'']"]
    signing_passthrough [where meth = "''personal_sign''"
          and p = "example_provider\<lparr>account := None\<rparr>"
          and params = "Some [JString ''hello'', JString ''0x01'']"]
    signing_passthrough [where meth = "''eth_chainId''" and p = example_provider
          and params = None]
  by (simp add: element_def hexString_def)

text \<open>
  Claim C8. For \<^verbatim>\<open>eth_sign\<close> and \<^verbatim>\<open>personal_sign\<close> with an account bound, \<^verbatim>\<open>request\<close> is to
  fail with \<open>UnsupportedSignerMismatchError\<close> when the supplied address differs from the
  account's address, and to return the account's signature over the supplied data when
  the address matches. The source destructures the parameters of both methods as
  \<^verbatim>\<open>[data, address]\<close>. That is the order of \<^verbatim>\<open>personal_sign\<close>; the parameters of \<^verbatim>\<open>eth_sign\<close>
  are \<^verbatim>\<open>[address, message]\<close>, so for an \<^verbatim>\<open>eth_sign\<close> call that supplies the account's own
  address the message is compared with the address and the call fails with
  \<open>UnsupportedSignerMismatchError\<close>, without signing. The comparison is also one of strings,
  character by character: the account's address written in another letter case is
  rejected in the same way.
\<close>

theorem eth_sign_with_own_address_rejected:
  "request (p\<lparr>account := Some (a\<lparr>acc_getAddress := Hex ''ab''\<rparr>)\<rparr>) ''eth_sign''
      (Some [JString ''0xab'', JString ''hello''])
     = (Inl UnsupportedSignerMismatchError, [AccountGetAddress])
   \<and> request (p\<lparr>account := Some (a\<lparr>acc_getAddress := Hex ''ab''\<rparr>)\<rparr>) ''personal_sign''
      (Some [JString ''hello'', JString ''0xAB''])
     = (Inl UnsupportedSignerMismatchError, [AccountGetAddress])"
  by (simp add: request_def element_def hexString_def throw_def)

section \<open>The hex encoding\<close>

text \<open>
  The encoding of the numeric fields loses nothing: the canonical hex form of an unsigned
  number decodes to that number.
\<close>

lemma digitVal_digits: "map digitVal ''0123456789abcdef'' = map Some [0..<16]"
  by (simp add: digitVal_def upt_rec)

lemma digitVal_digit:
  assumes "m < 16"
  shows "digitVal (''0123456789abcdef'' ! m) = Some m"
proof -
  have "digitVal (''0123456789abcdef'' ! m) = map digitVal ''0123456789abcdef'' ! m"
    using assms by (intro nth_map [symmetric]) simp
  also have "\<dots> = map Some [0..<16] ! m" by (simp only: digitVal_digits)
  also have "\<dots> = Some m" using assms by simp
  finally show ?thesis .
qed

lemma digitVal_hexDigit: "digitVal (hexDigit d) = Some (d mod 16)"
  by (simp add: hexDigit_def digitVal_digit)

lemma hexVal_append:
  "hexVal acc (xs @ [c]) =
     (case hexVal acc xs of
        None \<Rightarrow> None
      | Some v \<Rightarrow> (case digitVal c of None \<Rightarrow> None | Some d \<Rightarrow> Some (v * 16 + d)))"
  by (induction xs arbitrary: acc) (simp_all split: option.splits)

lemma hexVal_hexDigits: "hexVal 0 (hexDigits n) = Some n"
proof (induction n rule: hexDigits.induct)
  case (1 n)
  show ?case
  proof (cases "n < 16")
    case True
    then show ?thesis by (simp add: hexDigits.simps [of n] digitVal_hexDigit)
  next
    case False
    with 1 have "hexVal 0 (hexDigits (n div 16)) = Some (n div 16)" by simp
    with False show ?thesis
      by (simp add: hexDigits.simps [of n] hexVal_append digitVal_hexDigit)
  qed
qed

lemma hexDigits_not_Nil: "hexDigits n \<noteq> []"
  by (simp add: hexDigits.simps [of n])

text \<open>Decoding the encoding of an unsigned number gives the number back.\<close>

lemma hexDigit_no_space: "\<not> isWhiteSpace (hexDigit n)"
proof -
  have "hexDigit n \<in> set ''0123456789abcdef''"
    unfolding hexDigit_def by (intro nth_mem) simp
  then show ?thesis by (auto simp: isWhiteSpace_def)
qed

lemma trimEnd_hexDigits: "trimEnd (hexDigits n) = hexDigits n"
  by (simp add: trimEnd_def hexDigits.simps [of n] hexDigit_no_space)

text \<open>White space at the end of the digits is trimmed away.\<close>

lemma fromHex_trailing_space: "fromHex (Hex ''1f '') = Inr 31"
  by (simp add: fromHex_def trimEnd_def isWhiteSpace_def digitVal_def)

lemma fromHex_toHex: "0 \<le> i \<Longrightarrow> fromHex (toHex i) = Inr i"
  by (simp add: fromHex_def toHex_def trimEnd_hexDigits hexVal_hexDigits hexDigits_not_Nil)

end
